theory Spec2Isabelle
  imports Main "HOL-Library.Sublist"
begin

section \<open>Go strings and the string helpers the adapters call\<close>

text \<open>
  A Go string is a sequence of bytes, so it is a \<^typ>\<open>string\<close> here: \<open>length\<close> is
  Go's \<open>len\<close> and \<open>drop\<close> a slice \<open>s[i:]\<close>. The helpers below are the functions of
  Go's \<open>strings\<close> and \<open>strconv\<close> packages that the two adapters use.
\<close>

text \<open>
  \<open>unicode.IsSpace\<close>: the UTF-8 encodings of the code points Go counts as white
  space (tab, LF, VT, FF, CR, space, U+0085, U+00A0, U+1680, U+2000 to U+200A, U+2028,
  U+2029, U+202F, U+205F, U+3000).
\<close>

definition spaceRunes :: "string list" where
  "spaceRunes =
     [[CHR 0x09], [CHR 0x0A], [CHR 0x0B], [CHR 0x0C], [CHR 0x0D], [CHR 0x20],
      [CHR 0xC2, CHR 0x85], [CHR 0xC2, CHR 0xA0],
      [CHR 0xE1, CHR 0x9A, CHR 0x80],
      [CHR 0xE2, CHR 0x80, CHR 0x80], [CHR 0xE2, CHR 0x80, CHR 0x81],
      [CHR 0xE2, CHR 0x80, CHR 0x82], [CHR 0xE2, CHR 0x80, CHR 0x83],
      [CHR 0xE2, CHR 0x80, CHR 0x84], [CHR 0xE2, CHR 0x80, CHR 0x85],
      [CHR 0xE2, CHR 0x80, CHR 0x86], [CHR 0xE2, CHR 0x80, CHR 0x87],
      [CHR 0xE2, CHR 0x80, CHR 0x88], [CHR 0xE2, CHR 0x80, CHR 0x89],
      [CHR 0xE2, CHR 0x80, CHR 0x8A],
      [CHR 0xE2, CHR 0x80, CHR 0xA8], [CHR 0xE2, CHR 0x80, CHR 0xA9],
      [CHR 0xE2, CHR 0x80, CHR 0xAF],
      [CHR 0xE2, CHR 0x81, CHR 0x9F],
      [CHR 0xE3, CHR 0x80, CHR 0x80]]"

text \<open>The number of bytes of the white-space rune a string starts with (0: none).\<close>

definition leadingSpace :: "string \<Rightarrow> nat" where
  "leadingSpace s = (case List.find (\<lambda>r. prefix r s) spaceRunes of
                       None \<Rightarrow> 0 | Some r \<Rightarrow> length r)"

text \<open>The number of bytes of the white-space rune a string ends with (0: none).\<close>

definition trailingSpace :: "string \<Rightarrow> nat" where
  "trailingSpace s = (case List.find (\<lambda>r. suffix r s) spaceRunes of
                        None \<Rightarrow> 0 | Some r \<Rightarrow> length r)"

lemma find_spaceRunes_bounds:
  assumes "List.find P spaceRunes = Some r" and "\<And>r. P r \<Longrightarrow> length r \<le> length s"
  shows "0 < length r \<and> length r \<le> length s"
proof -
  from assms(1) have "r \<in> set spaceRunes" and "P r"
    by (auto simp: find_Some_iff in_set_conv_nth)
  then show ?thesis
    using assms(2) by (auto simp: spaceRunes_def)
qed

lemma leadingSpace_le: "leadingSpace s \<le> length s"
  unfolding leadingSpace_def
  by (auto split: option.splits dest!: find_spaceRunes_bounds [where s = s]
      simp: prefix_length_le)

lemma trailingSpace_le: "trailingSpace s \<le> length s"
  unfolding trailingSpace_def
  by (auto split: option.splits dest!: find_spaceRunes_bounds [where s = s]
      simp: suffix_length_le)

lemma leadingSpace_decr: "0 < leadingSpace s \<Longrightarrow> length s - leadingSpace s < length s"
  using leadingSpace_le [of s] by auto

lemma trailingSpace_decr: "0 < trailingSpace s \<Longrightarrow> length s - trailingSpace s < length s"
  using trailingSpace_le [of s] by auto

text \<open>\<open>strings.TrimLeftFunc(s, unicode.IsSpace)\<close>: drop white-space runes from the front.\<close>

function TrimLeftSpace :: "string \<Rightarrow> string" where
  "TrimLeftSpace s =
     (if leadingSpace s = 0 then s else TrimLeftSpace (drop (leadingSpace s) s))"
  by pat_completeness auto
termination
  by (relation "measure length") (auto simp: leadingSpace_decr)

text \<open>\<open>strings.TrimRightFunc(s, unicode.IsSpace)\<close>: drop white-space runes from the end.\<close>

function TrimRightSpace :: "string \<Rightarrow> string" where
  "TrimRightSpace s =
     (if trailingSpace s = 0 then s
      else TrimRightSpace (take (length s - trailingSpace s) s))"
  by pat_completeness auto
termination
  by (relation "measure length") (auto simp: trailingSpace_decr)

text \<open>
  \<open>strings.TrimSpace\<close>: leading white space is removed first, trailing white space of
  the rest second (Go's ASCII fast path computes the same slice).
\<close>

definition TrimSpace :: "string \<Rightarrow> string" where
  "TrimSpace s = TrimRightSpace (TrimLeftSpace s)"

text \<open>
  \<open>strings.ToUpper\<close> and \<open>strings.ToLower\<close> on the ASCII letters. Go also maps the
  letters outside ASCII by the Unicode tables; bytes outside ASCII are kept here.
\<close>

definition upperByte :: "char \<Rightarrow> char" where
  "upperByte c = (let n = (of_char c :: nat)
                  in if 97 \<le> n \<and> n \<le> 122 then char_of (n - 32) else c)"

definition lowerByte :: "char \<Rightarrow> char" where
  "lowerByte c = (let n = (of_char c :: nat)
                  in if 65 \<le> n \<and> n \<le> 90 then char_of (n + 32) else c)"

definition ToUpper :: "string \<Rightarrow> string" where
  "ToUpper s = map upperByte s"

definition ToLower :: "string \<Rightarrow> string" where
  "ToLower s = map lowerByte s"

text \<open>\<open>strings.Contains(s, substr)\<close>.\<close>

fun Contains :: "string \<Rightarrow> string \<Rightarrow> bool" where
  "Contains [] sub = (sub = [])"
| "Contains (c # cs) sub = (prefix sub (c # cs) \<or> Contains cs sub)"

text \<open>\<open>strings.Join(elems, sep)\<close>.\<close>

fun Join :: "string list \<Rightarrow> string \<Rightarrow> string" where
  "Join [] sep = []"
| "Join [x] sep = x"
| "Join (x # y # ys) sep = x @ sep @ Join (y # ys) sep"

text \<open>\<open>strconv.Itoa\<close>: the decimal digits of an integer, with a minus sign when negative.\<close>

definition digitByte :: "nat \<Rightarrow> char" where
  "digitByte d = char_of (48 + d)"

function natDigits :: "nat \<Rightarrow> string" where
  "natDigits n = (if n < 10 then [digitByte n] else natDigits (n div 10) @ [digitByte (n mod 10)])"
  by pat_completeness auto
termination
  by (relation "measure id") auto

definition Itoa :: "int \<Rightarrow> string" where
  "Itoa i = (if i < 0 then CHR ''-'' # natDigits (nat (- i)) else natDigits (nat i))"


section \<open>Errors\<close>

text \<open>
  The adapters build their errors with the builder of the Station-Manager errors package:
  \<open>errors.New(op)\<close>, then \<open>.Err(cause)\<close>, \<open>.Msg(text)\<close> or \<open>.Errorf(format, ...)\<close>.
  An error is the sentinel \<open>ErrNotFound\<close>, an error of a library outside the repository
  (transport, URL parsing, decoding) with its text, or a built error with its
  operation, its message and its cause.
\<close>

datatype Error =
    ErrNotFound
  | External string
  | DetailedError string string "Error option"

definition errors_New :: "string \<Rightarrow> Error" where
  "errors_New op = DetailedError op [] None"

fun Msg :: "string \<Rightarrow> Error \<Rightarrow> Error" where
  "Msg m (DetailedError op _ c) = DetailedError op m c"
| "Msg m e = e"

fun Err :: "Error option \<Rightarrow> Error \<Rightarrow> Error" where
  "Err c (DetailedError op m _) = DetailedError op m c"
| "Err c e = e"

text \<open>
  \<open>.Errorf(format, args...)\<close>: the formatted text is the message; the argument of a
  \<open>%w\<close> verb, when the format has one, is the cause.
\<close>

fun Errorf :: "string \<Rightarrow> Error option \<Rightarrow> Error \<Rightarrow> Error" where
  "Errorf m c (DetailedError op _ _) = DetailedError op m c"
| "Errorf m c e = e"

text \<open>\<open>errors.Is(err, errors.ErrNotFound)\<close>: the sentinel is in the chain of causes.\<close>

fun IsNotFound :: "Error \<Rightarrow> bool" where
  "IsNotFound ErrNotFound = True"
| "IsNotFound (External t) = False"
| "IsNotFound (DetailedError op m None) = False"
| "IsNotFound (DetailedError op m (Some c)) = IsNotFound c"

section \<open>Data model\<close>

text \<open>\<open>types.LookupConfig\<close>, with the fields the adapters read.\<close>

record LookupConfig =
  Enabled :: bool
  URL :: string
  UserAgent :: string
  HttpTimeoutSec :: int
  HttpTimeout :: int
  Username :: string
  Password :: string

text \<open>\<open>types.Country\<close>, the record the JSON adapter returns.\<close>

record Country =
  co_Name :: string
  co_Prefix :: string
  co_Ccode :: string
  co_Continent :: string
  co_DXCC :: string
  co_CQZone :: string
  co_ITUZone :: string
  co_TimeOffset :: string

definition emptyCountry :: Country where
  "emptyCountry = \<lparr>co_Name = [], co_Prefix = [], co_Ccode = [], co_Continent = [],
     co_DXCC = [], co_CQZone = [], co_ITUZone = [], co_TimeOffset = []\<rparr>"

text \<open>
  Modelled from the spec: the declaration of \<open>PrefixLookupResponse\<close>, the typed model
  the JSON body is decoded into, is not among the sources. The upstream object has
  fields for the country name, prefix, codes, zones and timestamp or offset, and an
  explicit found flag; the fields are those \<open>unmarshalResponse\<close> reads, with the types
  its use of them requires: a boolean \<open>Found\<close>, two integer zones and strings.
\<close>

record PrefixLookupResponse =
  pr_Found :: bool
  pr_CountryName :: string
  pr_Prefix :: string
  pr_CountryCode :: string
  pr_Continent :: string
  pr_PrimaryDXCCPrefix :: string
  pr_CQZone :: int
  pr_ITUZone :: int
  pr_TimeOffset :: string
  pr_LocalTime :: string

text \<open>\<open>types.ContactedStation\<close>, the record the XML adapter returns.\<close>

record ContactedStation =
  st_Call :: string
  st_Name :: string
  st_Address :: string
  st_QTH :: string
  st_Country :: string
  st_Gridsquare :: string
  st_CQZ :: string
  st_ITUZ :: string
  st_DXCC :: string
  st_Email :: string
  st_EqCall :: string
  st_Web :: string
  st_Lat :: string
  st_Lon :: string
  st_ContactedOp :: string

definition emptyStation :: ContactedStation where
  "emptyStation = \<lparr>st_Call = [], st_Name = [], st_Address = [], st_QTH = [],
     st_Country = [], st_Gridsquare = [], st_CQZ = [], st_ITUZ = [], st_DXCC = [],
     st_Email = [], st_EqCall = [], st_Web = [], st_Lat = [], st_Lon = [],
     st_ContactedOp = []\<rparr>"

text \<open>
  The XML envelope \<open>Database\<close> with its \<open>Callsign\<close> and \<open>Session\<close> elements; of
  \<open>Callsign\<close>, the fields that \<open>unmarshalResponse\<close> reads.
\<close>

record Callsign =
  cs_Call :: string
  cs_Dxcc :: string
  cs_Fname :: string
  cs_Name :: string
  cs_Addr1 :: string
  cs_Addr2 :: string
  cs_State :: string
  cs_Zip :: string
  cs_Country :: string
  cs_Lat :: string
  cs_Lon :: string
  cs_Grid :: string
  cs_PCall :: string
  cs_Email :: string
  cs_URL :: string
  cs_Cqzone :: string
  cs_Ituzone :: string
  cs_Attn :: string
  cs_Nickname :: string
  cs_NameFmt :: string

record Session =
  se_Key :: string
  se_Error :: string

record Database =
  db_Callsign :: Callsign
  db_Session :: Session

section \<open>The world outside the repository\<close>

text \<open>
  A context is \<open>context.Background()\<close> or another context, which only the HTTP
  layer interprets. A parsed URL carries its scheme, its host and its query parameters.
\<close>

datatype Context = Background | Derived nat

record ParsedURL =
  u_Scheme :: string
  u_Host :: string
  u_Rest :: string
  u_Query :: "(string \<times> string) list"

datatype HttpClient = HttpClient int

record Request =
  rq_Ctx :: Context
  rq_URL :: ParsedURL
  rq_Header :: "(string \<times> string) list"

text \<open>
  A response: its status code, the bytes \<open>io.ReadAll\<close> returns for its body, the
  error \<open>io.ReadAll\<close> returns, and the error of closing the body.
\<close>

record Response =
  rs_StatusCode :: int
  rs_Body :: string
  rs_ReadErr :: "string option"
  rs_CloseErr :: "string option"

text \<open>
  The libraries and collaborators the adapters call are parameters of the model:
  \<open>url.Parse\<close>, \<open>http.NewRequest\<close> (its error), \<open>client.Do\<close>, the XML and JSON decoders,
  the general layout parser of \<open>time.Parse\<close> (the zone offset in seconds of the time it
  parses), and whether a log call through a nil \<open>*logging.Service\<close> panics. An error of
  theirs is its text.
\<close>

record Env =
  url_Parse :: "string \<Rightarrow> string + ParsedURL"
  http_NewRequest :: "ParsedURL \<Rightarrow> string option"
  http_Do :: "HttpClient \<Rightarrow> Request \<Rightarrow> string + Response"
  xml_Unmarshal :: "string \<Rightarrow> string + Database"
  json_Unmarshal :: "string \<Rightarrow> string + PrefixLookupResponse"
  time_parseLayout :: "string \<Rightarrow> int option"
  nilLoggerPanics :: bool

text \<open>What an operation does besides returning: the requests it sends, the lines it logs.\<close>

datatype Event = HttpGet HttpClient Request | LogInfo string | LogError string

text \<open>A call returns its results or panics.\<close>

datatype 'a Outcome = Panics | Returns 'a


section \<open>Parsing an RFC 3339 time\<close>

text \<open>
  \<open>time.Parse(time.RFC3339, value)\<close> first tries the strict RFC 3339 reader of the
  standard library and falls back to the general layout parser. Only the zone offset
  of the result is used, so both yield the offset in seconds. The strict reader is
  written out; the general parser is the parameter \<open>time_parseLayout\<close>.
\<close>

definition isDigit :: "char \<Rightarrow> bool" where
  "isDigit c = (48 \<le> (of_char c :: nat) \<and> (of_char c :: nat) \<le> 57)"

text \<open>An unsigned decimal number within a range; None when a byte is no digit or the
  number is out of range.\<close>

definition parseUint :: "string \<Rightarrow> nat \<Rightarrow> nat \<Rightarrow> nat option" where
  "parseUint s lo hi =
     (if list_all isDigit s
      then (let x = foldl (\<lambda>a c. a * 10 + (of_char c - 48)) 0 s
            in if x < lo \<or> hi < x then None else Some x)
      else None)"

definition isLeap :: "nat \<Rightarrow> bool" where
  "isLeap year = (year mod 4 = 0 \<and> (year mod 100 \<noteq> 0 \<or> year mod 400 = 0))"

definition daysIn :: "nat \<Rightarrow> nat \<Rightarrow> nat" where
  "daysIn m year =
     (if m = 2 then (if isLeap year then 29 else 28)
      else 30 + ((m + m div 8) mod 2))"

text \<open>The slice \<open>s[i:j]\<close>.\<close>

definition slice :: "string \<Rightarrow> nat \<Rightarrow> nat \<Rightarrow> string" where
  "slice s i j = take (j - i) (drop i s)"

text \<open>The zone designator after the seconds and their fraction: \<open>Z\<close> or \<open>\<plusminus>hh:mm\<close>.\<close>

definition parseZone :: "string \<Rightarrow> int option" where
  "parseZone s =
     (if s = ''Z'' then Some 0
      else if length s \<noteq> 6 then None
      else (case (parseUint (slice s 1 3) 0 23, parseUint (slice s 4 6) 0 59) of
              (Some hr, Some mm) \<Rightarrow>
                (if (s ! 0 = CHR ''-'' \<or> s ! 0 = CHR ''+'') \<and> s ! 3 = CHR '':''
                 then (let zoneOffset = (int hr * 60 + int mm) * 60
                       in Some (if s ! 0 = CHR ''-'' then - zoneOffset else zoneOffset))
                 else None)
            | _ \<Rightarrow> None))"

definition parseRFC3339 :: "string \<Rightarrow> int option" where
  "parseRFC3339 s =
     (if length s < 19 then None
      else (case parseUint (slice s 0 4) 0 9999 of None \<Rightarrow> None | Some year \<Rightarrow>
           (case parseUint (slice s 5 7) 1 12 of None \<Rightarrow> None | Some month \<Rightarrow>
           (case parseUint (slice s 8 10) 1 (daysIn month year) of None \<Rightarrow> None | Some day \<Rightarrow>
           (case parseUint (slice s 11 13) 0 23 of None \<Rightarrow> None | Some hour \<Rightarrow>
           (case parseUint (slice s 14 16) 0 59 of None \<Rightarrow> None | Some minute \<Rightarrow>
           (case parseUint (slice s 17 19) 0 59 of None \<Rightarrow> None | Some sec \<Rightarrow>
             (if s ! 4 = CHR ''-'' \<and> s ! 7 = CHR ''-'' \<and> s ! 10 = CHR ''T''
                 \<and> s ! 13 = CHR '':'' \<and> s ! 16 = CHR '':''
              then (let r = drop 19 s;
                        r' = (if 2 \<le> length r \<and> r ! 0 = CHR ''.'' \<and> isDigit (r ! 1)
                              then dropWhile isDigit (drop 1 r) else r)
                    in parseZone r')
              else None))))))))"

text \<open>\<open>time.Parse(time.RFC3339, value)\<close> followed by \<open>t.Zone()\<close>: the offset in seconds.\<close>

definition time_Parse :: "Env \<Rightarrow> string \<Rightarrow> int option" where
  "time_Parse env s =
     (case parseRFC3339 s of Some z \<Rightarrow> Some z | None \<Rightarrow> time_parseLayout env s)"

section \<open>The JSON adapter (package hamnut)\<close>

subsection \<open>Decoding and normalising a response body\<close>

text \<open>
  The offset of a parsed time as \<open>unmarshalResponse\<close> formats it. \<open>offset\<close> is a
  \<open>time.Duration\<close> in nanoseconds; \<open>int(offset.Hours())\<close> and \<open>int(offset.Minutes())\<close>
  truncate, and the duration is not negative where they are taken. The offsets
  \<open>time.Parse\<close> yields are below a day and a half, far from the range of int64.
\<close>

definition formatOffset :: "int \<Rightarrow> string" where
  "formatOffset offsetSec =
     (let offset0 = offsetSec * 1000000000;
          sign = (if offset0 < 0 then ''-'' else ''+'');
          offset = (if offset0 < 0 then - offset0 else offset0);
          hours = offset div 3600000000000;
          minutes = (offset div 60000000000) mod 60;
          hh = (if hours < 10 then sign @ ''0'' @ Itoa hours else sign @ Itoa hours)
      in (if minutes < 10 then hh @ '':0'' @ Itoa minutes else hh @ '':'' @ Itoa minutes))"

definition hamnut_timeOffset :: "Env \<Rightarrow> PrefixLookupResponse \<Rightarrow> string" where
  "hamnut_timeOffset env resp =
     (if pr_TimeOffset resp \<noteq> [] then pr_TimeOffset resp
      else if pr_LocalTime resp \<noteq> [] then
        (case time_Parse env (pr_LocalTime resp) of
           Some offsetSec \<Rightarrow> formatOffset offsetSec
         | None \<Rightarrow>
             (if 6 \<le> length (pr_LocalTime resp)
              then drop (length (pr_LocalTime resp) - 6) (pr_LocalTime resp)
              else []))
      else [])"

definition hamnut_unmarshalResponse :: "Env \<Rightarrow> string \<Rightarrow> Country \<times> Error option" where
  "hamnut_unmarshalResponse env body =
     (case json_Unmarshal env body of
        Inl e \<Rightarrow>
          (emptyCountry,
           Some (Msg ''decoding Hamnut response''
                  (Err (Some (External e)) (errors_New ''hamnut.Service.unmarshalResponse''))))
      | Inr resp \<Rightarrow>
          (if \<not> pr_Found resp then
             (emptyCountry,
              Some (Msg ''prefix not found by Hamnut (found=false)''
                     (Err (Some ErrNotFound) (errors_New ''hamnut.Service.unmarshalResponse''))))
           else
             (\<lparr>co_Name = pr_CountryName resp,
               co_Prefix = pr_Prefix resp,
               co_Ccode = pr_CountryCode resp,
               co_Continent = pr_Continent resp,
               co_DXCC = pr_PrimaryDXCCPrefix resp,
               co_CQZone = (if pr_CQZone resp \<noteq> 0 then Itoa (pr_CQZone resp) else []),
               co_ITUZone = (if pr_ITUZone resp \<noteq> 0 then Itoa (pr_ITUZone resp) else []),
               co_TimeOffset = hamnut_timeOffset env resp\<rparr>,
              None)))"


subsection \<open>The service and its life cycle\<close>

text \<open>
  The fields of \<open>Service\<close>. A pointer is an option, None being nil. The injected
  \<open>*config.Service\<close> is what its \<open>LookupServiceConfig(ServiceName)\<close> returns;
  \<open>isInitialized\<close> is the atomic flag and \<open>initOnce\<close> tells whether the
  \<open>sync.Once\<close> has run its function.
\<close>

datatype LoggingService = LoggingService

record Service =
  ConfigService :: "(string + LookupConfig) option"
  LoggerService :: "LoggingService option"
  Config :: "LookupConfig option"
  client :: "HttpClient option"
  isInitialized :: bool
  initOnce :: bool

text \<open>\<open>url.Values.Set\<close>: the key gets the one value.\<close>

fun Values_Set :: "string \<Rightarrow> string \<Rightarrow> (string \<times> string) list \<Rightarrow> (string \<times> string) list" where
  "Values_Set k v [] = [(k, v)]"
| "Values_Set k v ((k', v') # q) =
     (if k' = k then (k, v) # filter (\<lambda>p. fst p \<noteq> k) q else (k', v') # Values_Set k v q)"

definition hamnut_validateConfig :: "Env \<Rightarrow> string \<Rightarrow> Service \<Rightarrow> Error option \<times> Service" where
  "hamnut_validateConfig env op s =
     (case Config s of
        None \<Rightarrow> (Some (Msg ''service config is not set'' (errors_New op)), s)
      | Some cfg \<Rightarrow>
          (if \<not> Enabled cfg then (None, s)
           else
             (let cfg1 = cfg\<lparr>URL := TrimSpace (URL cfg)\<rparr>; s1 = s\<lparr>Config := Some cfg1\<rparr>
              in if URL cfg1 = [] then
                   (Some (Msg ''lookup service URL cannot be empty'' (errors_New op)), s1)
                 else
                   (case url_Parse env (URL cfg1) of
                      Inl e \<Rightarrow>
                        (Some (Msg ''lookup service URL is invalid''
                                (Err (Some (External e)) (errors_New op))), s1)
                    | Inr u \<Rightarrow>
                        (if u_Scheme u = [] \<or> u_Host u = [] then
                           (Some (Msg ''lookup service URL is invalid''
                                   (Err None (errors_New op))), s1)
                         else
                           (let cfg2 = cfg1\<lparr>UserAgent := TrimSpace (UserAgent cfg1)\<rparr>;
                                s2 = s1\<lparr>Config := Some cfg2\<rparr>
                            in if UserAgent cfg2 = [] then
                                 (Some (Msg ''lookup service user agent cannot be empty''
                                         (errors_New op)), s2)
                               else if HttpTimeoutSec cfg2 \<le> 0 then
                                 (Some (Msg ''lookup service timeout must be greater than zero''
                                         (errors_New op)), s2)
                               else (None, s2)))))))"

text \<open>The function that \<open>Initialize\<close> hands to \<open>initOnce.Do\<close>: the error it leaves in
  \<open>initErr\<close> and the service as it leaves it.\<close>

definition hamnut_initBody :: "Env \<Rightarrow> Service \<Rightarrow> (Error option \<times> Service) Outcome \<times> Event list" where
  "hamnut_initBody env s =
     (if LoggerService s = None then
        (Returns (Some (Msg ''logger service has not been set/injected''
                         (errors_New ''hamnut.Service.Initialize'')), s), [])
      else
        (case (case Config s of
                 Some c \<Rightarrow> Inr s
               | None \<Rightarrow>
                   (case ConfigService s of
                      None \<Rightarrow> Inl (Msg ''application config has not been set/injected''
                                     (errors_New ''hamnut.Service.Initialize''))
                    | Some (Inl e) \<Rightarrow> Inl (Msg ''getting lookup service config''
                                     (Err (Some (External e)) (errors_New ''hamnut.Service.Initialize'')))
                    | Some (Inr cfg) \<Rightarrow> Inr (s\<lparr>Config := Some cfg\<rparr>))) of
           Inl e \<Rightarrow> (Returns (Some e, s), [])
         | Inr s1 \<Rightarrow>
             (case hamnut_validateConfig env ''hamnut.Service.Initialize'' s1 of
                (Some e, s2) \<Rightarrow> (Returns (Some e, s2), [])
              | (None, s2) \<Rightarrow>
                  (if client s2 = None then
                     (case Config s2 of
                        None \<Rightarrow> (Panics, [])
                      | Some cfg \<Rightarrow>
                          (if Enabled cfg then
                             (Returns (None, s2\<lparr>client := Some (HttpClient (HttpTimeoutSec cfg)),
                                                 isInitialized := True\<rparr>), [])
                           else
                             (Returns (None, s2\<lparr>isInitialized := True\<rparr>),
                              [LogInfo ''Hamnut callsign/prefix lookup is disabled in the config''])))
                   else (Returns (None, s2\<lparr>isInitialized := True\<rparr>), [])))))"

text \<open>
  \<open>Initialize\<close>: nil at once when the flag is set; otherwise \<open>initErr\<close> starts nil and
  \<open>initOnce.Do\<close> runs the function only if it has not run before.
\<close>

definition hamnut_Initialize :: "Env \<Rightarrow> Service \<Rightarrow> (Error option \<times> Service) Outcome \<times> Event list" where
  "hamnut_Initialize env s =
     (if isInitialized s then (Returns (None, s), [])
      else if initOnce s then (Returns (None, s), [])
      else (case hamnut_initBody env s of
              (Panics, ev) \<Rightarrow> (Panics, ev)
            | (Returns (initErr, s'), ev) \<Rightarrow> (Returns (initErr, s'\<lparr>initOnce := True\<rparr>), ev)))"

subsection \<open>Lookup\<close>

text \<open>What \<open>LookupWithContext\<close> does with the response of the service.\<close>

definition hamnut_classify :: "Env \<Rightarrow> Response \<Rightarrow> Country \<times> Error option" where
  "hamnut_classify env resp =
     (if rs_StatusCode resp = 404 then
        (emptyCountry,
         Some (Msg ''Prefix not found by Hamnut''
                (Err (Some ErrNotFound) (errors_New ''hamnut.Service.LookupWithContext''))))
      else if rs_StatusCode resp < 200 \<or> rs_StatusCode resp \<ge> 300 then
        (emptyCountry,
         Some (Errorf (''Service returned unexpected status '' @ Itoa (rs_StatusCode resp)
                         @ '': '' @ rs_Body resp) None
                (errors_New ''hamnut.Service.LookupWithContext'')))
      else
        (case rs_ReadErr resp of
           Some e \<Rightarrow>
             (emptyCountry,
              Some (Errorf (''Failed to read response body: '' @ e) (Some (External e))
                     (errors_New ''hamnut.Service.LookupWithContext'')))
         | None \<Rightarrow>
             (case hamnut_unmarshalResponse env (rs_Body resp) of
                (country, Some err) \<Rightarrow>
                  (emptyCountry,
                   Some (Msg ''Failed to unmarshal response body''
                          (Err (Some err) (errors_New ''hamnut.Service.LookupWithContext''))))
              | (country, None) \<Rightarrow> (country, None))))"

definition hamnut_LookupWithContext ::
  "Env \<Rightarrow> Service \<Rightarrow> Context option \<Rightarrow> string \<Rightarrow> (Country \<times> Error option) Outcome \<times> Event list" where
  "hamnut_LookupWithContext env s ctx0 callsign0 =
     (let ctx = (case ctx0 of None \<Rightarrow> Background | Some c \<Rightarrow> c);
          op = ''hamnut.Service.LookupWithContext''
      in if \<not> isInitialized s then
           (Returns (emptyCountry, Some (Msg ''service is not initialized'' (errors_New op))), [])
         else
           (case Config s of
              None \<Rightarrow>
                (Returns (emptyCountry, Some (Msg ''service config is not set'' (errors_New op))), [])
            | Some cfg \<Rightarrow>
                (let callsign = TrimSpace callsign0
                 in if \<not> Enabled cfg then
                      (Returns (emptyCountry\<lparr>co_Name := callsign\<rparr>, None),
                       (if LoggerService s \<noteq> None
                        then [LogInfo ''Hamnut callsign/prefix lookup is disabled in the config'']
                        else []))
                    else
                      (case client s of
                         None \<Rightarrow>
                           (Returns (emptyCountry,
                              Some (Msg ''http client is not configured'' (errors_New op))), [])
                       | Some cl \<Rightarrow>
                           (if callsign = [] then
                              (Returns (emptyCountry,
                                 Some (Msg ''callsign cannot be empty'' (errors_New op))), [])
                            else
                              (case url_Parse env (URL cfg) of
                                 Inl e \<Rightarrow>
                                   (Returns (emptyCountry,
                                      Some (Msg ''invalid Hamnut base URL''
                                             (Err (Some (External e)) (errors_New op)))), [])
                               | Inr u \<Rightarrow>
                                   (let u' = u\<lparr>u_Query := Values_Set ''prefix'' callsign (u_Query u)\<rparr>
                                    in case http_NewRequest env u' of
                                         Some e \<Rightarrow>
                                           (Returns (emptyCountry,
                                              Some (Msg ''Failed to create HTTP GET request''
                                                     (Err (Some (External e)) (errors_New op)))), [])
                                       | None \<Rightarrow>
                                           (let req = \<lparr>rq_Ctx = ctx, rq_URL = u',
                                                  rq_Header = [(''User-Agent'', UserAgent cfg),
                                                               (''Accept'', ''application/json'')]\<rparr>
                                            in case http_Do env cl req of
                                                 Inl e \<Rightarrow>
                                                   (Returns (emptyCountry,
                                                      Some (Msg ''Failed to perform HTTP GET request''
                                                             (Err (Some (External e)) (errors_New op)))),
                                                    [HttpGet cl req])
                                               | Inr resp \<Rightarrow>
                                                   (Returns (hamnut_classify env resp),
                                                    [HttpGet cl req])))))))))"

definition hamnut_Lookup ::
  "Env \<Rightarrow> Service \<Rightarrow> string \<Rightarrow> (Country \<times> Error option) Outcome \<times> Event list" where
  "hamnut_Lookup env s callsign = hamnut_LookupWithContext env s (Some Background) callsign"


section \<open>The XML adapter (package qrz)\<close>

subsection \<open>The service\<close>

text \<open>The service of package qrz has the same fields and the cached session key.\<close>

record QrzService = Service +
  sessionKey :: string

text \<open>
  A log call the source does not guard: through a nil logger it panics or does
  nothing, as the logging package decides; through a logger it writes its line.
\<close>

definition logPanics :: "Env \<Rightarrow> LoggingService option \<Rightarrow> bool" where
  "logPanics env logger = (logger = None \<and> nilLoggerPanics env)"

definition logged :: "LoggingService option \<Rightarrow> Event list \<Rightarrow> Event list" where
  "logged logger ev = (if logger = None then [] else ev)"

subsection \<open>Decoding and normalising a response body\<close>

text \<open>The loop of \<open>joinParts\<close>: the trimmed parts that are not empty, in order.\<close>

fun joinParts_loop :: "string list \<Rightarrow> string list \<Rightarrow> string list" where
  "joinParts_loop cleaned [] = cleaned"
| "joinParts_loop cleaned (part # parts) =
     (let part' = TrimSpace part
      in if part' \<noteq> [] then joinParts_loop (cleaned @ [part']) parts
         else joinParts_loop cleaned parts)"

definition joinParts :: "string list \<Rightarrow> string" where
  "joinParts parts = Join (joinParts_loop [] parts) '', ''"

definition buildName :: "Callsign \<Rightarrow> string" where
  "buildName cs =
     (if TrimSpace (cs_NameFmt cs) \<noteq> [] then TrimSpace (cs_NameFmt cs)
      else
        (let pieces0 = [];
             pieces1 = (if TrimSpace (cs_Fname cs) \<noteq> []
                        then pieces0 @ [TrimSpace (cs_Fname cs)] else pieces0);
             pieces2 = (if TrimSpace (cs_Name cs) \<noteq> []
                        then pieces1 @ [TrimSpace (cs_Name cs)] else pieces1)
         in if 0 < length pieces2 then Join pieces2 '' ''
            else TrimSpace (cs_Nickname cs)))"

definition qrz_unmarshalResponse :: "Env \<Rightarrow> string \<Rightarrow> ContactedStation \<times> Error option" where
  "qrz_unmarshalResponse env body =
     (case xml_Unmarshal env body of
        Inl e \<Rightarrow>
          (emptyStation,
           Some (Msg ''failed to unmarshal QRZ XML response''
                  (Err (Some (External e)) (errors_New ''qrz.Service.unmarshalResponse''))))
      | Inr db \<Rightarrow>
          (let sessionErr = TrimSpace (se_Error (db_Session db))
           in if sessionErr \<noteq> [] then
                (let lower = ToLower sessionErr;
                     errBuilder = Msg sessionErr (errors_New ''qrz.Service.unmarshalResponse'')
                 in (emptyStation,
                     Some (if Contains lower ''not found''
                           then Err (Some ErrNotFound) errBuilder else errBuilder)))
              else
                (let cs = db_Callsign db;
                     call = ToUpper (TrimSpace (cs_Call cs))
                 in if call = [] then
                      (emptyStation,
                       Some (Msg ''callsign not present in QRZ response''
                              (Err (Some ErrNotFound)
                                (errors_New ''qrz.Service.unmarshalResponse''))))
                    else
                      (\<lparr>st_Call = call,
                        st_Name = buildName cs,
                        st_Address = joinParts [cs_Addr1 cs, joinParts [cs_Addr2 cs, cs_State cs],
                                                cs_Zip cs, cs_Country cs],
                        st_QTH = joinParts [cs_Addr2 cs, cs_State cs],
                        st_Country = TrimSpace (cs_Country cs),
                        st_Gridsquare = ToUpper (TrimSpace (cs_Grid cs)),
                        st_CQZ = TrimSpace (cs_Cqzone cs),
                        st_ITUZ = TrimSpace (cs_Ituzone cs),
                        st_DXCC = TrimSpace (cs_Dxcc cs),
                        st_Email = TrimSpace (cs_Email cs),
                        st_EqCall = ToUpper (TrimSpace (cs_PCall cs)),
                        st_Web = TrimSpace (cs_URL cs),
                        st_Lat = TrimSpace (cs_Lat cs),
                        st_Lon = TrimSpace (cs_Lon cs),
                        st_ContactedOp = TrimSpace (cs_Attn cs)\<rparr>,
                       None))))"

subsection \<open>Session acquisition\<close>

text \<open>What \<open>requestAndSetSessionKey\<close> does with the response: the error it returns and
  the service with the key set.\<close>

definition qrz_sessionFromResponse :: "Env \<Rightarrow> QrzService \<Rightarrow> Response \<Rightarrow> Error option \<times> QrzService" where
  "qrz_sessionFromResponse env s resp =
     (let op = ''qrz.Service.fetchAndSetSessionKey''
      in if rs_StatusCode resp < 200 \<or> rs_StatusCode resp \<ge> 300 then
           (Some (Errorf (''QRZ.com returned unexpected status '' @ Itoa (rs_StatusCode resp)
                            @ '': '' @ rs_Body resp) None (errors_New op)), s)
         else
           (case rs_ReadErr resp of
              Some e \<Rightarrow>
                (Some (Errorf (''Failed to read response body: '' @ e) (Some (External e))
                        (errors_New op)), s)
            | None \<Rightarrow>
                (case xml_Unmarshal env (rs_Body resp) of
                   Inl e \<Rightarrow>
                     (Some (Errorf (''Failed to unmarshal XML: '' @ e) (Some (External e))
                             (errors_New op)), s)
                 | Inr db \<Rightarrow>
                     (if se_Error (db_Session db) \<noteq> [] then
                        (Some (Errorf (''QRZ.com returned error: '' @ se_Error (db_Session db)) None
                                (errors_New op)), s)
                      else if se_Key (db_Session db) = [] then
                        (Some (Msg ''QRZ.com returned missing session key'' (errors_New op)), s)
                      else (None, s\<lparr>sessionKey := se_Key (db_Session db)\<rparr>)))))"

definition qrz_requestAndSetSessionKey ::
  "Env \<Rightarrow> QrzService \<Rightarrow> (Error option \<times> QrzService) Outcome \<times> Event list" where
  "qrz_requestAndSetSessionKey env s =
     (let op = ''qrz.Service.fetchAndSetSessionKey''
      in case Config s of
           None \<Rightarrow> (Panics, [])
         | Some cfg \<Rightarrow>
             (case url_Parse env (URL cfg) of
                Inl e \<Rightarrow>
                  (Returns (Some (Msg ''invalid QRZ base URL''
                                   (Err (Some (External e)) (errors_New op))), s), [])
              | Inr u \<Rightarrow>
                  (let u' = u\<lparr>u_Query := Values_Set ''agent'' (UserAgent cfg)
                                             (Values_Set ''password'' (Password cfg)
                                               (Values_Set ''username'' (Username cfg) (u_Query u)))\<rparr>
                   in case http_NewRequest env u' of
                        Some e \<Rightarrow>
                          (Returns (Some (Errorf (''Failed to create HTTP GET request: '' @ e)
                                           (Some (External e)) (errors_New op)), s), [])
                      | None \<Rightarrow>
                          (let req = \<lparr>rq_Ctx = Background, rq_URL = u',
                                 rq_Header = [(''User-Agent'', UserAgent cfg),
                                              (''Accept'', ''application/xml'')]\<rparr>
                           in case client s of
                                None \<Rightarrow> (Panics, [])
                              | Some cl \<Rightarrow>
                                  (case http_Do env cl req of
                                     Inl e \<Rightarrow>
                                       (Returns (Some (Errorf (''Failed to perform HTTP GET request: '' @ e)
                                                        (Some (External e)) (errors_New op)), s),
                                        [HttpGet cl req])
                                   | Inr resp \<Rightarrow>
                                       (if rs_CloseErr resp \<noteq> None \<and> logPanics env (LoggerService s)
                                        then (Panics, [HttpGet cl req])
                                        else
                                          (Returns (qrz_sessionFromResponse env s resp),
                                           HttpGet cl req #
                                           (if rs_CloseErr resp \<noteq> None
                                            then logged (LoggerService s)
                                                   [LogError ''Failed to close response body'']
                                            else []))))))))"


text \<open>The request that \<open>requestAndSetSessionKey\<close> builds from the configuration and the
  parsed base URL.\<close>

definition qrz_sessionRequest :: "LookupConfig \<Rightarrow> ParsedURL \<Rightarrow> Request" where
  "qrz_sessionRequest cfg u =
     \<lparr>rq_Ctx = Background,
      rq_URL = u\<lparr>u_Query := Values_Set ''agent'' (UserAgent cfg)
                               (Values_Set ''password'' (Password cfg)
                                 (Values_Set ''username'' (Username cfg) (u_Query u)))\<rparr>,
      rq_Header = [(''User-Agent'', UserAgent cfg), (''Accept'', ''application/xml'')]\<rparr>"

subsection \<open>The life cycle\<close>

definition qrz_validateConfig :: "Env \<Rightarrow> string \<Rightarrow> QrzService \<Rightarrow> Error option \<times> QrzService" where
  "qrz_validateConfig env op s =
     (case Config s of
        None \<Rightarrow> (Some (Msg ''service config is not set'' (errors_New op)), s)
      | Some cfg \<Rightarrow>
          (let cfg1 = cfg\<lparr>URL := TrimSpace (URL cfg)\<rparr>; s1 = s\<lparr>Config := Some cfg1\<rparr>
           in if URL cfg1 = [] then
                (Some (Msg ''lookup service URL cannot be empty'' (errors_New op)), s1)
              else
                (case url_Parse env (URL cfg1) of
                   Inl e \<Rightarrow>
                     (Some (Msg ''lookup service URL is invalid''
                             (Err (Some (External e)) (errors_New op))), s1)
                 | Inr u \<Rightarrow>
                     (if u_Scheme u = [] \<or> u_Host u = [] then
                        (Some (Msg ''lookup service URL is invalid''
                                (Err None (errors_New op))), s1)
                      else
                        (let cfg2 = cfg1\<lparr>UserAgent := TrimSpace (UserAgent cfg1)\<rparr>;
                             s2 = s1\<lparr>Config := Some cfg2\<rparr>
                         in if UserAgent cfg2 = [] then
                              (Some (Msg ''lookup service user agent cannot be empty''
                                      (errors_New op)), s2)
                            else if HttpTimeout cfg2 \<le> 0 then
                              (Some (Msg ''lookup service timeout must be greater than zero''
                                      (errors_New op)), s2)
                            else (None, s2))))))"

text \<open>
  The step of the function of \<open>Initialize\<close> that builds the client and acquires the
  session key: an error of the acquisition disables the configuration and becomes
  \<open>initErr\<close>, and the flag is not set.
\<close>

definition qrz_acquire :: "Env \<Rightarrow> QrzService \<Rightarrow> LookupConfig \<Rightarrow>
    (Error option \<times> QrzService) Outcome \<times> Event list" where
  "qrz_acquire env s2 cfg =
     (let s3 = s2\<lparr>client := Some (HttpClient (HttpTimeoutSec cfg))\<rparr>
      in case qrz_requestAndSetSessionKey env s3 of
           (Panics, ev) \<Rightarrow> (Panics, ev)
         | (Returns (Some err, s4), ev) \<Rightarrow>
             (case Config s4 of
                None \<Rightarrow> (Panics, ev)
              | Some cfg4 \<Rightarrow>
                  (Returns (Some err, s4\<lparr>Config := Some (cfg4\<lparr>Enabled := False\<rparr>)\<rparr>), ev))
         | (Returns (None, s4), ev) \<Rightarrow> (Returns (None, s4\<lparr>isInitialized := True\<rparr>), ev))"

definition qrz_initBody :: "Env \<Rightarrow> QrzService \<Rightarrow> (Error option \<times> QrzService) Outcome \<times> Event list" where
  "qrz_initBody env s =
     (if LoggerService s = None then
        (Returns (Some (Msg ''logger service has not been set/injected''
                         (errors_New ''qrz.Service.Initialize'')), s), [])
      else
        (case (case Config s of
                 Some c \<Rightarrow> Inr s
               | None \<Rightarrow>
                   (case ConfigService s of
                      None \<Rightarrow> Inl (Msg ''application config has not been set/injected''
                                     (errors_New ''qrz.Service.Initialize''))
                    | Some (Inl e) \<Rightarrow> Inl (Msg ''getting lookup service config''
                                     (Err (Some (External e)) (errors_New ''qrz.Service.Initialize'')))
                    | Some (Inr cfg) \<Rightarrow> Inr (s\<lparr>Config := Some cfg\<rparr>))) of
           Inl e \<Rightarrow> (Returns (Some e, s), [])
         | Inr s1 \<Rightarrow>
             (case qrz_validateConfig env ''qrz.Service.Initialize'' s1 of
                (Some e, s2) \<Rightarrow> (Returns (Some e, s2), [])
              | (None, s2) \<Rightarrow>
                  (if client s2 = None then
                     (case Config s2 of
                        None \<Rightarrow> (Panics, [])
                      | Some cfg \<Rightarrow>
                          (if Enabled cfg then qrz_acquire env s2 cfg
                           else
                             (Returns (None, s2\<lparr>isInitialized := True\<rparr>),
                              [LogInfo ''QRZ.com callsign lookup is disabled in the config''])))
                   else (Returns (None, s2\<lparr>isInitialized := True\<rparr>), [])))))"

definition qrz_Initialize :: "Env \<Rightarrow> QrzService \<Rightarrow> (Error option \<times> QrzService) Outcome \<times> Event list" where
  "qrz_Initialize env s =
     (if isInitialized s then (Returns (None, s), [])
      else if initOnce s then (Returns (None, s), [])
      else (case qrz_initBody env s of
              (Panics, ev) \<Rightarrow> (Panics, ev)
            | (Returns (initErr, s'), ev) \<Rightarrow> (Returns (initErr, s'\<lparr>initOnce := True\<rparr>), ev)))"

subsection \<open>Lookup\<close>

text \<open>What \<open>LookupWithContext\<close> does with the response of the service; the bool tells
  whether the not-found line is logged.\<close>

definition qrz_classify :: "Env \<Rightarrow> string \<Rightarrow> Response \<Rightarrow> (ContactedStation \<times> Error option) \<times> bool" where
  "qrz_classify env callsign resp =
     (let op = ''qrz.service.LookupWithContext''
      in if rs_StatusCode resp < 200 \<or> rs_StatusCode resp \<ge> 300 then
           ((emptyStation,
             Some (Errorf (''Service returned unexpected status '' @ Itoa (rs_StatusCode resp)
                             @ '': '' @ rs_Body resp) None (errors_New op))), False)
         else
           (case rs_ReadErr resp of
              Some e \<Rightarrow>
                ((emptyStation,
                  Some (Errorf (''Failed to read response body: '' @ e) (Some (External e))
                         (errors_New op))), False)
            | None \<Rightarrow>
                (case qrz_unmarshalResponse env (rs_Body resp) of
                   (station, Some err) \<Rightarrow>
                     (if IsNotFound err then ((emptyStation\<lparr>st_Call := callsign\<rparr>, None), True)
                      else
                        ((emptyStation,
                          Some (Msg ''Failed to unmarshal response body''
                                 (Err (Some err) (errors_New op)))), False))
                 | (station, None) \<Rightarrow> ((station, None), False))))"

definition qrz_LookupWithContext ::
  "Env \<Rightarrow> QrzService \<Rightarrow> Context option \<Rightarrow> string \<Rightarrow>
     (ContactedStation \<times> Error option) Outcome \<times> Event list" where
  "qrz_LookupWithContext env s ctx0 callsign0 =
     (let ctx = (case ctx0 of None \<Rightarrow> Background | Some c \<Rightarrow> c);
          op = ''qrz.service.LookupWithContext''
      in if \<not> isInitialized s then
           (Returns (emptyStation, Some (Msg ''service is not initialized'' (errors_New op))), [])
         else
           (case Config s of
              None \<Rightarrow>
                (Returns (emptyStation, Some (Msg ''service config is not set'' (errors_New op))), [])
            | Some cfg \<Rightarrow>
                (let callsign = TrimSpace callsign0
                 in if \<not> Enabled cfg then
                      (if logPanics env (LoggerService s) then (Panics, [])
                       else
                         (Returns (emptyStation\<lparr>st_Call := callsign\<rparr>, None),
                          logged (LoggerService s)
                            [LogInfo ''QRZ.com callsign lookup is disabled in the config'']))
                    else
                      (case client s of
                         None \<Rightarrow>
                           (Returns (emptyStation,
                              Some (Msg ''http client is not configured'' (errors_New op))), [])
                       | Some cl \<Rightarrow>
                           (case url_Parse env (URL cfg) of
                              Inl e \<Rightarrow>
                                (Returns (emptyStation,
                                   Some (Msg ''invalid QRZ base URL''
                                          (Err (Some (External e)) (errors_New op)))), [])
                            | Inr u \<Rightarrow>
                                (let u' = u\<lparr>u_Query := Values_Set ''agent'' (UserAgent cfg)
                                                  (Values_Set ''callsign'' callsign
                                                    (Values_Set ''s'' (sessionKey s) (u_Query u)))\<rparr>
                                 in case http_NewRequest env u' of
                                      Some e \<Rightarrow>
                                        (Returns (emptyStation,
                                           Some (Msg ''Failed to create HTTP GET request''
                                                  (Err (Some (External e)) (errors_New op)))), [])
                                    | None \<Rightarrow>
                                        (let req = \<lparr>rq_Ctx = ctx, rq_URL = u',
                                               rq_Header = [(''User-Agent'', UserAgent cfg),
                                                            (''Accept'', ''application/xml'')]\<rparr>
                                         in case http_Do env cl req of
                                              Inl e \<Rightarrow>
                                                (Returns (emptyStation,
                                                   Some (Msg ''Failed to perform HTTP GET request''
                                                          (Err (Some (External e)) (errors_New op)))),
                                                 [HttpGet cl req])
                                            | Inr resp \<Rightarrow>
                                                (case qrz_classify env callsign resp of
                                                   (r, True) \<Rightarrow>
                                                     (if logPanics env (LoggerService s)
                                                      then (Panics, [HttpGet cl req])
                                                      else
                                                        (Returns r,
                                                         HttpGet cl req #
                                                         logged (LoggerService s)
                                                           [LogInfo ''Callsign not found in QRZ.com database'']))
                                                 | (r, False) \<Rightarrow> (Returns r, [HttpGet cl req])))))))))"

text \<open>\<open>Lookup\<close> reads \<open>s.Config.Enabled\<close> first: a nil \<open>Config\<close> is a nil dereference.\<close>

definition qrz_Lookup ::
  "Env \<Rightarrow> QrzService \<Rightarrow> string \<Rightarrow> (ContactedStation \<times> Error option) Outcome \<times> Event list" where
  "qrz_Lookup env s callsign =
     (case Config s of
        None \<Rightarrow> (Panics, [])
      | Some cfg \<Rightarrow>
          (if \<not> Enabled cfg then
             (if logPanics env (LoggerService s) then (Panics, [])
              else (Returns (emptyStation, None),
                    logged (LoggerService s) [LogInfo ''QRZ.com lookup not enabled in the config.'']))
           else qrz_LookupWithContext env s (Some Background) callsign))"


section \<open>The specification's wording of the normalisation rules\<close>

text \<open>
  The specification's time offset: a sign, two zero-padded hour digits, a colon and
  two zero-padded minute digits.
\<close>

definition spec_offsetText :: "int \<Rightarrow> string" where
  "spec_offsetText z =
     (let a = nat \<bar>z\<bar>; h = a div 3600; m = (a div 60) mod 60
      in [if z < 0 then CHR ''-'' else CHR ''+'',
          digitByte (h div 10), digitByte (h mod 10), CHR '':'',
          digitByte (m div 10), digitByte (m mod 10)])"

text \<open>
  The specification's resolution of the time offset: the explicit offset if present;
  else the zone offset of the local time if it parses as RFC 3339; else the last six
  characters of the local time if it has six; else empty.
\<close>

definition spec_timeOffset :: "Env \<Rightarrow> PrefixLookupResponse \<Rightarrow> string" where
  "spec_timeOffset env p =
     (if pr_TimeOffset p \<noteq> [] then pr_TimeOffset p
      else (case (if pr_LocalTime p = [] then None else time_Parse env (pr_LocalTime p)) of
              Some z \<Rightarrow> spec_offsetText z
            | None \<Rightarrow>
                (if 6 \<le> length (pr_LocalTime p)
                 then drop (length (pr_LocalTime p) - 6) (pr_LocalTime p) else [])))"




section \<open>Concrete services and worlds\<close>

text \<open>The zero value \<open>&Service{}\<close> of either package, as the tests build it.\<close>

definition hamnut_zero :: Service where
  "hamnut_zero = \<lparr>ConfigService = None, LoggerService = None, Config = None, client = None,
     isInitialized = False, initOnce = False\<rparr>"

definition qrz_zero :: QrzService where
  "qrz_zero = \<lparr>ConfigService = None, LoggerService = None, Config = None, client = None,
     isInitialized = False, initOnce = False, sessionKey = []\<rparr>"

definition ex_cfg :: LookupConfig where
  "ex_cfg = \<lparr>Enabled = True, URL = ''https://example.org/lookup'', UserAgent = ''test'',
     HttpTimeoutSec = 5, HttpTimeout = 5, Username = ''user'', Password = ''secret''\<rparr>"

definition ex_url :: ParsedURL where
  "ex_url = \<lparr>u_Scheme = ''https'', u_Host = ''example.org'', u_Rest = ''/lookup'', u_Query = []\<rparr>"

text \<open>A service with logger and configuration injected, before \<open>Initialize\<close>.\<close>

definition hamnut_fresh :: "LookupConfig \<Rightarrow> Service" where
  "hamnut_fresh cfg = \<lparr>ConfigService = None, LoggerService = Some LoggingService,
     Config = Some cfg, client = None, isInitialized = False, initOnce = False\<rparr>"

definition qrz_fresh :: "LookupConfig \<Rightarrow> QrzService" where
  "qrz_fresh cfg = \<lparr>ConfigService = None, LoggerService = Some LoggingService,
     Config = Some cfg, client = None, isInitialized = False, initOnce = False,
     sessionKey = []\<rparr>"

text \<open>A service as the tests prepare it for a lookup: client injected, flag set.\<close>

definition hamnut_ready :: "LookupConfig \<Rightarrow> Service" where
  "hamnut_ready cfg = \<lparr>ConfigService = None, LoggerService = Some LoggingService,
     Config = Some cfg, client = Some (HttpClient 5), isInitialized = True, initOnce = True\<rparr>"

definition qrz_ready :: "LookupConfig \<Rightarrow> QrzService" where
  "qrz_ready cfg = \<lparr>ConfigService = None, LoggerService = Some LoggingService,
     Config = Some cfg, client = Some (HttpClient 5), isInitialized = True, initOnce = True,
     sessionKey = ''key''\<rparr>"

text \<open>
  A world in which every URL parses to \<open>ex_url\<close>, every request is answered by the given
  response, and the decoders yield the given values.
\<close>

definition ex_env :: "Response \<Rightarrow> (string + Database) \<Rightarrow> (string + PrefixLookupResponse) \<Rightarrow> Env" where
  "ex_env resp x j = \<lparr>url_Parse = (\<lambda>_. Inr ex_url), http_NewRequest = (\<lambda>_. None),
     http_Do = (\<lambda>_ _. Inr resp), xml_Unmarshal = (\<lambda>_. x), json_Unmarshal = (\<lambda>_. j),
     time_parseLayout = (\<lambda>_. None), nilLoggerPanics = True\<rparr>"

definition ex_response :: "int \<Rightarrow> string \<Rightarrow> Response" where
  "ex_response status body = \<lparr>rs_StatusCode = status, rs_Body = body, rs_ReadErr = None,
     rs_CloseErr = None\<rparr>"

definition ex_callsign :: "string \<Rightarrow> Callsign" where
  "ex_callsign call = \<lparr>cs_Call = call, cs_Dxcc = ''291'', cs_Fname = ''FRED L'', cs_Name = ''LLOYD'',
     cs_Addr1 = ''8711 E PINNACLE PEAK RD 193'', cs_Addr2 = ''SCOTTSDALE'', cs_State = ''AZ'',
     cs_Zip = ''85255'', cs_Country = ''United States'', cs_Lat = ''34.23456'',
     cs_Lon = ''-112.34356'', cs_Grid = ''DM32af'', cs_PCall = ''KJ6RK'',
     cs_Email = ''flloyd@qrz.com'', cs_URL = ''https://www.qrz.com/db/aa7bq'', cs_Cqzone = ''3'',
     cs_Ituzone = ''2'', cs_Attn = ''c/o QRZ LLC'', cs_Nickname = [], cs_NameFmt = []\<rparr>"

definition ex_database :: "string \<Rightarrow> string \<Rightarrow> string \<Rightarrow> Database" where
  "ex_database call key err =
     \<lparr>db_Callsign = ex_callsign call, db_Session = \<lparr>se_Key = key, se_Error = err\<rparr>\<rparr>"

definition ex_prefix :: "bool \<Rightarrow> string \<Rightarrow> string \<Rightarrow> PrefixLookupResponse" where
  "ex_prefix found offset localTime = \<lparr>pr_Found = found, pr_CountryName = ''United States'',
     pr_Prefix = ''K'', pr_CountryCode = ''US'', pr_Continent = ''NA'',
     pr_PrimaryDXCCPrefix = ''291'', pr_CQZone = 5, pr_ITUZone = 8, pr_TimeOffset = offset,
     pr_LocalTime = localTime\<rparr>"


section \<open>Evaluation lemmas for the concrete inputs\<close>

lemma TrimSpace_K1: "TrimSpace ''K1'' = ''K1''"
  by code_simp

lemma TrimSpace_K1ABC: "TrimSpace ''K1ABC'' = ''K1ABC''"
  by code_simp

lemma TrimSpace_blank: "TrimSpace ''   '' = []"
  by code_simp


lemma Itoa_400: "Itoa 400 = ''400''"
  by code_simp

section \<open>The JSON adapter: classification of the response\<close>

lemma hamnut_sent:
  assumes "hamnut_LookupWithContext env s ctx c = (Returns r, [HttpGet cl req])"
    and "http_Do env cl req = Inr resp"
  shows "r = hamnut_classify env resp"
  using assms unfolding hamnut_LookupWithContext_def Let_def
  by (auto split: if_splits option.splits sum.splits)

lemma hamnut_classify_404:
  "rs_StatusCode resp = 404 \<Longrightarrow>
   \<exists>e. hamnut_classify env resp = (emptyCountry, Some e) \<and> IsNotFound e"
  by (simp add: hamnut_classify_def errors_New_def)

lemma hamnut_classify_status:
  "rs_StatusCode resp \<noteq> 404 \<Longrightarrow> rs_StatusCode resp < 200 \<or> 300 \<le> rs_StatusCode resp \<Longrightarrow>
   hamnut_classify env resp =
     (emptyCountry, Some (DetailedError ''hamnut.Service.LookupWithContext''
        (''Service returned unexpected status '' @ Itoa (rs_StatusCode resp) @ '': ''
           @ rs_Body resp) None))"
  by (auto simp add: hamnut_classify_def errors_New_def)

lemma hamnut_classify_found_false:
  "200 \<le> rs_StatusCode resp \<Longrightarrow> rs_StatusCode resp < 300 \<Longrightarrow> rs_ReadErr resp = None \<Longrightarrow>
   json_Unmarshal env (rs_Body resp) = Inr p \<Longrightarrow> \<not> pr_Found p \<Longrightarrow>
   \<exists>e. hamnut_classify env resp = (emptyCountry, Some e) \<and> IsNotFound e"
  by (auto simp add: hamnut_classify_def hamnut_unmarshalResponse_def errors_New_def)

lemma ex_hamnut_lookup:
  "hamnut_LookupWithContext (ex_env resp x j) (hamnut_ready ex_cfg) None ''K1'' =
     (Returns (hamnut_classify (ex_env resp x j) resp),
      [HttpGet (HttpClient 5)
        \<lparr>rq_Ctx = Background, rq_URL = ex_url\<lparr>u_Query := [(''prefix'', ''K1'')]\<rparr>,
         rq_Header = [(''User-Agent'', ''test''), (''Accept'', ''application/json'')]\<rparr>])"
  by (simp add: hamnut_LookupWithContext_def hamnut_ready_def ex_cfg_def ex_env_def ex_url_def
      TrimSpace_K1)

text \<open>
  Claim C7. When the JSON adapter has sent its request and received a response: a status
  404 gives an error that is \<open>ErrNotFound\<close>; any other status outside 200..299 gives an
  error whose message holds the status code in decimal and the body that was read; and
  a 2xx response whose decoded payload has the found flag false gives an error that is
  \<open>ErrNotFound\<close>, not a decoded record.
\<close>

theorem hamnut_response_classification:
  assumes "hamnut_LookupWithContext env s ctx c = (Returns r, [HttpGet cl req])"
    and "http_Do env cl req = Inr resp"
  shows "(rs_StatusCode resp = 404 \<longrightarrow> (\<exists>e. r = (emptyCountry, Some e) \<and> IsNotFound e))
       \<and> (rs_StatusCode resp \<noteq> 404 \<and> (rs_StatusCode resp < 200 \<or> 300 \<le> rs_StatusCode resp) \<longrightarrow>
            r = (emptyCountry, Some (DetailedError ''hamnut.Service.LookupWithContext''
                   (''Service returned unexpected status '' @ Itoa (rs_StatusCode resp)
                      @ '': '' @ rs_Body resp) None)))
       \<and> (\<forall>p. 200 \<le> rs_StatusCode resp \<and> rs_StatusCode resp < 300 \<and> rs_ReadErr resp = None
              \<and> json_Unmarshal env (rs_Body resp) = Inr p \<and> \<not> pr_Found p \<longrightarrow>
            (\<exists>e. r = (emptyCountry, Some e) \<and> IsNotFound e))"
proof -
  have r: "r = hamnut_classify env resp"
    using assms by (rule hamnut_sent)
  show ?thesis
    unfolding r
    using hamnut_classify_404 [of resp env] hamnut_classify_status [of resp env]
      hamnut_classify_found_false [of resp env]
    by blast
qed

theorem hamnut_response_classification_witness:
  "fst (hamnut_LookupWithContext (ex_env (ex_response 400 ''bad request'') (Inl []) (Inl []))
         (hamnut_ready ex_cfg) None ''K1'') =
     Returns (emptyCountry, Some (DetailedError ''hamnut.Service.LookupWithContext''
                   ''Service returned unexpected status 400: bad request'' None))"
proof -
  let ?env = "ex_env (ex_response 400 ''bad request'') (Inl []) (Inl [])"
  let ?req = "\<lparr>rq_Ctx = Background, rq_URL = ex_url\<lparr>u_Query := [(''prefix'', ''K1'')]\<rparr>,
         rq_Header = [(''User-Agent'', ''test''), (''Accept'', ''application/json'')]\<rparr>"
  obtain r where r: "hamnut_LookupWithContext ?env (hamnut_ready ex_cfg) None ''K1'' =
     (Returns r, [HttpGet (HttpClient 5) ?req])"
    using ex_hamnut_lookup by blast
  have d: "http_Do ?env (HttpClient 5) ?req = Inr (ex_response 400 ''bad request'')"
    by (simp add: ex_env_def)
  from hamnut_response_classification [OF r d] Itoa_400
  have "r = (emptyCountry, Some (DetailedError ''hamnut.Service.LookupWithContext''
                   ''Service returned unexpected status 400: bad request'' None))"
    by (simp add: ex_response_def)
  with r show ?thesis by simp
qed

section \<open>The JSON adapter: time offset and found flag\<close>

lemma natDigits_one: "n < 10 \<Longrightarrow> natDigits n = [digitByte n]"
  by simp

lemma natDigits_two: "10 \<le> n \<Longrightarrow> n < 100 \<Longrightarrow> natDigits n = [digitByte (n div 10), digitByte (n mod 10)]"
  by (subst natDigits.simps) (simp add: natDigits_one)

lemma digitByte_0: "digitByte 0 = CHR ''0''"
  by code_simp

lemma pad2: "0 \<le> h \<Longrightarrow> h < 100 \<Longrightarrow>
  (if h < 10 then sg @ ''0'' @ Itoa h else sg @ Itoa h) = sg @ [digitByte (nat h div 10), digitByte (nat h mod 10)]"
proof (cases "h < 10")
  case True
  assume "0 \<le> h"
  with True have "nat h < 10" "nat h div 10 = 0" "nat h mod 10 = nat h" by auto
  with True \<open>0 \<le> h\<close> show ?thesis
    by (simp add: Itoa_def natDigits_one digitByte_0 del: natDigits.simps)
next
  case False
  assume "h < 100" "0 \<le> h"
  with False have "10 \<le> nat h" "nat h < 100" by auto
  with False \<open>0 \<le> h\<close> show ?thesis
    by (simp add: Itoa_def natDigits_two del: natDigits.simps)
qed

lemma pad2_minutes: "0 \<le> m \<Longrightarrow> m < 100 \<Longrightarrow>
  (if m < 10 then X @ '':0'' @ Itoa m else X @ '':'' @ Itoa m) =
    X @ '':'' @ [digitByte (nat m div 10), digitByte (nat m mod 10)]"
proof -
  assume m: "0 \<le> m" "m < 100"
  have "(if m < 10 then X @ '':0'' @ Itoa m else X @ '':'' @ Itoa m) =
        (if m < 10 then (X @ '':'') @ ''0'' @ Itoa m else (X @ '':'') @ Itoa m)"
    by simp
  also have "\<dots> = (X @ '':'') @ [digitByte (nat m div 10), digitByte (nat m mod 10)]"
    using m by (rule pad2)
  finally show ?thesis by simp
qed

lemma ns_hours: "(a::int) * 1000000000 div 3600000000000 = a div 3600"
proof -
  have "(3600000000000::int) = 3600 * 1000000000" by simp
  then show ?thesis by (metis div_mult_mult2 zero_neq_numeral)
qed

lemma ns_minutes: "(a::int) * 1000000000 div 60000000000 = a div 60"
proof -
  have "(60000000000::int) = 60 * 1000000000" by simp
  then show ?thesis by (metis div_mult_mult2 zero_neq_numeral)
qed

lemma formatOffset_abs:
  "formatOffset z =
     (if (\<bar>z\<bar> div 60) mod 60 < 10
      then (if \<bar>z\<bar> div 3600 < 10 then (if z < 0 then ''-'' else ''+'') @ ''0'' @ Itoa (\<bar>z\<bar> div 3600)
            else (if z < 0 then ''-'' else ''+'') @ Itoa (\<bar>z\<bar> div 3600)) @ '':0'' @ Itoa ((\<bar>z\<bar> div 60) mod 60)
      else (if \<bar>z\<bar> div 3600 < 10 then (if z < 0 then ''-'' else ''+'') @ ''0'' @ Itoa (\<bar>z\<bar> div 3600)
            else (if z < 0 then ''-'' else ''+'') @ Itoa (\<bar>z\<bar> div 3600)) @ '':'' @ Itoa ((\<bar>z\<bar> div 60) mod 60))"
proof -
  have off: "(if z * 1000000000 < 0 then - (z * 1000000000) else z * 1000000000) = \<bar>z\<bar> * 1000000000"
    by auto
  have sg: "(z * 1000000000 < 0) = (z < 0)" by auto
  show ?thesis
    unfolding formatOffset_def Let_def off ns_hours ns_minutes
    unfolding sg ..
qed

lemma formatOffset_spec:
  assumes "\<bar>z\<bar> < 360000"
  shows "formatOffset z = spec_offsetText z"
proof -
  define a where "a = \<bar>z\<bar>"
  have a: "0 \<le> a" "a < 360000" using assms by (auto simp: a_def)
  have h: "0 \<le> a div 3600" "a div 3600 < 100" using a by auto
  have m: "0 \<le> (a div 60) mod 60" "(a div 60) mod 60 < 100" using a by auto
  have nh: "nat (a div 3600) = nat a div 3600" using a by (simp add: nat_div_distrib)
  have nm: "nat ((a div 60) mod 60) = (nat a div 60) mod 60"
    using a by (simp add: nat_div_distrib nat_mod_distrib)
  have "formatOffset z = ((if z < 0 then ''-'' else ''+'')
      @ [digitByte (nat (a div 3600) div 10), digitByte (nat (a div 3600) mod 10)])
      @ '':'' @ [digitByte (nat ((a div 60) mod 60) div 10), digitByte (nat ((a div 60) mod 60) mod 10)]"
    unfolding formatOffset_abs a_def [symmetric] pad2 [OF h] pad2_minutes [OF m] ..
  also have "\<dots> = spec_offsetText z"
    unfolding spec_offsetText_def Let_def a_def [symmetric] nh nm by simp
  finally show ?thesis .
qed

lemma parseUint_le: "parseUint s lo hi = Some x \<Longrightarrow> x \<le> hi"
  by (auto simp: parseUint_def Let_def split: if_splits)

lemma parseZone_bound: "parseZone s = Some z \<Longrightarrow> \<bar>z\<bar> < 360000"
  unfolding parseZone_def Let_def
  by (auto split: if_splits option.splits dest!: parseUint_le)

lemma parseRFC3339_bound: "parseRFC3339 s = Some z \<Longrightarrow> \<bar>z\<bar> < 360000"
  unfolding parseRFC3339_def Let_def
  by (auto split: if_splits option.splits dest: parseZone_bound)

lemma parse_example: "parseRFC3339 ''2025-11-30T13:31:07+02:00'' = Some 7200"
  by code_simp

lemma spec_offsetText_7200: "spec_offsetText 7200 = ''+02:00''"
  by code_simp


text \<open>
  Claim C6. When the body decodes and the found flag is set, \<open>unmarshalResponse\<close>
  returns no error whatever the timestamp is, and the time offset of the record is the
  specification's: the explicit offset if present; else the zone offset of the local time
  if it parses as RFC 3339, as a sign, two hour digits, a colon and two minute digits;
  else the last six bytes of a local time of at least six bytes; else empty. The local
  time \<open>2025-11-30T13:31:07+02:00\<close> with no explicit offset gives \<open>+02:00\<close>. The offsets
  of the general layout parser are taken to be below one hundred hours (it admits zone
  hours up to 24); those of the strict reader are proved to be.
\<close>

theorem hamnut_time_offset_resolution:
  assumes "json_Unmarshal env body = Inr p" and "pr_Found p"
    and "\<forall>z. time_parseLayout env (pr_LocalTime p) = Some z \<longrightarrow> \<bar>z\<bar> < 360000"
  shows "\<exists>c. hamnut_unmarshalResponse env body = (c, None)
           \<and> co_TimeOffset c = spec_timeOffset env p
           \<and> (pr_TimeOffset p = [] \<and> pr_LocalTime p = ''2025-11-30T13:31:07+02:00''
                \<longrightarrow> co_TimeOffset c = ''+02:00'')"
proof -
  have bound: "\<bar>z\<bar> < 360000" if "time_Parse env (pr_LocalTime p) = Some z" for z
    using that assms(3) parseRFC3339_bound [of "pr_LocalTime p"]
    by (auto simp: time_Parse_def split: option.splits)
  have eq: "hamnut_timeOffset env p = spec_timeOffset env p"
    unfolding hamnut_timeOffset_def spec_timeOffset_def
    by (auto split: option.splits simp: formatOffset_spec bound)
  have ex: "spec_timeOffset env p = ''+02:00''"
    if "pr_TimeOffset p = []" "pr_LocalTime p = ''2025-11-30T13:31:07+02:00''"
    using that by (simp add: spec_timeOffset_def time_Parse_def parse_example spec_offsetText_7200)
  show ?thesis
    using assms(1,2) eq ex by (simp add: hamnut_unmarshalResponse_def)
qed

theorem hamnut_time_offset_resolution_witness:
  "co_TimeOffset (fst (hamnut_unmarshalResponse
      (ex_env (ex_response 200 []) (Inl [])
         (Inr (ex_prefix True [] ''2025-11-30T13:31:07+02:00''))) [])) = ''+02:00''"
proof -
  let ?p = "ex_prefix True [] ''2025-11-30T13:31:07+02:00''"
  let ?env = "ex_env (ex_response 200 []) (Inl []) (Inr ?p)"
  have 1: "json_Unmarshal ?env [] = Inr ?p" by (simp add: ex_env_def)
  have 2: "pr_Found ?p" by (simp add: ex_prefix_def)
  have 3: "\<forall>z. time_parseLayout ?env (pr_LocalTime ?p) = Some z \<longrightarrow> \<bar>z\<bar> < 360000"
    by (simp add: ex_env_def)
  have 4: "pr_TimeOffset ?p = [] \<and> pr_LocalTime ?p = ''2025-11-30T13:31:07+02:00''"
    by (simp add: ex_prefix_def)
  from hamnut_time_offset_resolution [OF 1 2 3] 4 show ?thesis
    by auto
qed

text \<open>
  Claim C10. A body whose decoded found flag is false, as it is when the payload omits
  the field (a Go bool decodes to false by default), is classified as not found whatever
  the other fields hold; a record is returned without error only when the decoded flag is
  true; and a 2xx response with such a body makes the lookup fail with an error that is
  \<open>ErrNotFound\<close>.
\<close>

theorem hamnut_found_flag_required:
  "(\<forall>p. json_Unmarshal env body = Inr p \<and> \<not> pr_Found p \<longrightarrow>
       hamnut_unmarshalResponse env body =
         (emptyCountry, Some (DetailedError ''hamnut.Service.unmarshalResponse''
            ''prefix not found by Hamnut (found=false)'' (Some ErrNotFound))))
   \<and> (\<forall>c. hamnut_unmarshalResponse env body = (c, None) \<longrightarrow>
         (\<exists>p. json_Unmarshal env body = Inr p \<and> pr_Found p))
   \<and> (\<forall>resp p. 200 \<le> rs_StatusCode resp \<and> rs_StatusCode resp < 300 \<and> rs_ReadErr resp = None
          \<and> json_Unmarshal env (rs_Body resp) = Inr p \<and> \<not> pr_Found p \<longrightarrow>
         (\<exists>e. hamnut_classify env resp = (emptyCountry, Some e) \<and> IsNotFound e))"
proof -
  have "\<forall>p. json_Unmarshal env body = Inr p \<and> \<not> pr_Found p \<longrightarrow>
       hamnut_unmarshalResponse env body =
         (emptyCountry, Some (DetailedError ''hamnut.Service.unmarshalResponse''
            ''prefix not found by Hamnut (found=false)'' (Some ErrNotFound)))"
    by (simp add: hamnut_unmarshalResponse_def errors_New_def)
  moreover have "\<forall>c. hamnut_unmarshalResponse env body = (c, None) \<longrightarrow>
         (\<exists>p. json_Unmarshal env body = Inr p \<and> pr_Found p)"
    by (auto simp: hamnut_unmarshalResponse_def split: sum.splits if_splits)
  ultimately show ?thesis
    using hamnut_classify_found_false [of _ env] by blast
qed

theorem hamnut_found_flag_required_witness:
  "hamnut_unmarshalResponse
      (ex_env (ex_response 200 []) (Inl []) (Inr (ex_prefix False ''-05:00'' []))) [] =
     (emptyCountry, Some (DetailedError ''hamnut.Service.unmarshalResponse''
            ''prefix not found by Hamnut (found=false)'' (Some ErrNotFound)))
   \<and> IsNotFound (DetailedError ''hamnut.Service.unmarshalResponse''
            ''prefix not found by Hamnut (found=false)'' (Some ErrNotFound))"
proof -
  let ?p = "ex_prefix False ''-05:00'' []"
  let ?env = "ex_env (ex_response 200 []) (Inl []) (Inr ?p)"
  have "json_Unmarshal ?env [] = Inr ?p \<and> \<not> pr_Found ?p"
    by (simp add: ex_env_def ex_prefix_def)
  with hamnut_found_flag_required [of ?env "[]"] show ?thesis
    by auto
qed

section \<open>The XML adapter: composition of the fields\<close>







section \<open>The XML adapter: session acquisition\<close>

lemma qrz_sessionFromResponse_fields:
  "qrz_sessionFromResponse env s resp = (r, s') \<Longrightarrow>
   Config s' = Config s \<and> isInitialized s' = isInitialized s \<and> initOnce s' = initOnce s
   \<and> client s' = client s \<and> (r \<noteq> None \<longrightarrow> s' = s)"
  unfolding qrz_sessionFromResponse_def Let_def
  by (auto split: if_splits option.splits sum.splits)

lemma qrz_request_outcome:
  assumes "Config s = Some cfg" "client s = Some cl" "url_Parse env (URL cfg) = Inr u"
    and "LoggerService s \<noteq> None"
  shows "qrz_requestAndSetSessionKey env s =
     (case http_NewRequest env (rq_URL (qrz_sessionRequest cfg u)) of
        Some e \<Rightarrow>
          (Returns (Some (DetailedError ''qrz.Service.fetchAndSetSessionKey''
                            (''Failed to create HTTP GET request: '' @ e) (Some (External e))), s), [])
      | None \<Rightarrow>
          (case http_Do env cl (qrz_sessionRequest cfg u) of
             Inl e \<Rightarrow>
               (Returns (Some (DetailedError ''qrz.Service.fetchAndSetSessionKey''
                                 (''Failed to perform HTTP GET request: '' @ e) (Some (External e))), s),
                [HttpGet cl (qrz_sessionRequest cfg u)])
           | Inr resp \<Rightarrow>
               (Returns (qrz_sessionFromResponse env s resp),
                HttpGet cl (qrz_sessionRequest cfg u) #
                (if rs_CloseErr resp \<noteq> None then [LogError ''Failed to close response body'']
                 else []))))"
proof -
  from assms(4) obtain l where l: "LoggerService s = Some l" by auto
  with assms(1-3) show ?thesis
    by (simp add: qrz_requestAndSetSessionKey_def qrz_sessionRequest_def Let_def errors_New_def
        logPanics_def logged_def split: option.splits sum.splits)
qed

lemma qrz_validateConfig_ok:
  assumes "qrz_validateConfig env op s1 = (None, s2)" and "Config s1 = Some cfg0"
  shows "s2 = s1\<lparr>Config := Some (cfg0\<lparr>URL := TrimSpace (URL cfg0),
                                      UserAgent := TrimSpace (UserAgent cfg0)\<rparr>)\<rparr>"
  using assms unfolding qrz_validateConfig_def Let_def
  by (auto split: if_splits sum.splits)

lemma qrz_acquire_lift:
  assumes "qrz_requestAndSetSessionKey env (s2\<lparr>client := Some (HttpClient (HttpTimeoutSec cfg))\<rparr>)
             = (Returns (r, s4), ev)"
    and "Config s4 = Some cfg4"
  shows "qrz_acquire env s2 cfg =
     (Returns (r, if r = None then s4\<lparr>isInitialized := True\<rparr>
                  else s4\<lparr>Config := Some (cfg4\<lparr>Enabled := False\<rparr>)\<rparr>), ev)"
  using assms by (cases r) (simp_all add: qrz_acquire_def)

lemma qrz_Initialize_acquires:
  assumes "\<not> isInitialized s" "\<not> initOnce s" "LoggerService s \<noteq> None" "client s = None"
    and "Config s = Some cfg0 \<or> (Config s = None \<and> ConfigService s = Some (Inr cfg0))"
    and "qrz_validateConfig env ''qrz.Service.Initialize'' (s\<lparr>Config := Some cfg0\<rparr>) = (None, s2)"
    and "Config s2 = Some cfg" "Enabled cfg"
  shows "qrz_Initialize env s =
     (case qrz_acquire env s2 cfg of
        (Panics, ev) \<Rightarrow> (Panics, ev)
      | (Returns (e, s'), ev) \<Rightarrow> (Returns (e, s'\<lparr>initOnce := True\<rparr>), ev))"
proof -
  have c2: "client s2 = None"
    using qrz_validateConfig_ok [OF assms(6)] assms(4) by simp
  have same: "s\<lparr>Config := Some cfg0\<rparr> = s" if "Config s = Some cfg0"
    using that by simp
  from assms(3) obtain l where l: "LoggerService s = Some l" by auto
  from assms(5) have "qrz_initBody env s = qrz_acquire env s2 cfg"
  proof
    assume a: "Config s = Some cfg0"
    with assms(6) same have "qrz_validateConfig env ''qrz.Service.Initialize'' s = (None, s2)"
      by simp
    with a l assms(7,8) c2 show ?thesis
      by (simp add: qrz_initBody_def)
  next
    assume a: "Config s = None \<and> ConfigService s = Some (Inr cfg0)"
    with l assms(6,7,8) c2 show ?thesis
      by (simp add: qrz_initBody_def)
  qed
  with assms(1,2) show ?thesis
    by (simp add: qrz_Initialize_def split: prod.splits Outcome.splits)
qed


lemma qrz_sessionFromResponse_spec:
  assumes "qrz_sessionFromResponse env s resp = (r, s4)"
  shows "(rs_StatusCode resp < 200 \<or> 300 \<le> rs_StatusCode resp \<longrightarrow>
                r = Some (DetailedError ''qrz.Service.fetchAndSetSessionKey''
                            (''QRZ.com returned unexpected status '' @ Itoa (rs_StatusCode resp)
                               @ '': '' @ rs_Body resp) None))
           \<and> (200 \<le> rs_StatusCode resp \<and> rs_StatusCode resp < 300 \<longrightarrow>
                (\<forall>e. rs_ReadErr resp = Some e \<longrightarrow>
                   r = Some (DetailedError ''qrz.Service.fetchAndSetSessionKey''
                               (''Failed to read response body: '' @ e) (Some (External e))))
              \<and> (rs_ReadErr resp = None \<longrightarrow>
                   (\<forall>e. xml_Unmarshal env (rs_Body resp) = Inl e \<longrightarrow>
                      r = Some (DetailedError ''qrz.Service.fetchAndSetSessionKey''
                                  (''Failed to unmarshal XML: '' @ e) (Some (External e))))
                 \<and> (\<forall>db. xml_Unmarshal env (rs_Body resp) = Inr db \<longrightarrow>
                      (se_Error (db_Session db) \<noteq> [] \<longrightarrow>
                         r = Some (DetailedError ''qrz.Service.fetchAndSetSessionKey''
                                     (''QRZ.com returned error: '' @ se_Error (db_Session db)) None))
                    \<and> (se_Error (db_Session db) = [] \<and> se_Key (db_Session db) = [] \<longrightarrow>
                         r = Some (DetailedError ''qrz.Service.fetchAndSetSessionKey''
                                     ''QRZ.com returned missing session key'' None))
                    \<and> (se_Error (db_Session db) = [] \<and> se_Key (db_Session db) \<noteq> [] \<longrightarrow>
                         r = None \<and> sessionKey s4 = se_Key (db_Session db)))))"
  using assms unfolding qrz_sessionFromResponse_def Let_def
  by (auto simp: errors_New_def split: if_splits option.splits sum.splits)

lemma ex_cfg_trim:
  "TrimSpace ''https://example.org/lookup'' = ''https://example.org/lookup''"
  "TrimSpace ''test'' = ''test''"
  by code_simp+

text \<open>
  Claim C9. Let \<open>Initialize\<close> of the XML adapter reach the session acquisition: the
  service is not initialized, its \<open>sync.Once\<close> is unused, a logger is set, no client is
  injected, and the configuration (injected, or obtained from the config service) is
  valid and enabled. Then \<open>Initialize\<close> returns, and:
  \<^item> whenever it returns an error, the configuration it leaves is disabled and the
    service is not initialized;
  \<^item> every failure of the acquisition is the error returned: failing to create the
    request, a transport failure, a status outside 200..299, a failure to read the
    body, a failure to decode it, a non-empty session error (the error embeds the
    message), and a missing session key (\<open>QRZ.com returned missing session key\<close>);
  \<^item> otherwise it returns nil, the service is initialized and holds the session key
    of the response; every further \<open>Initialize\<close> returns nil and leaves the service,
    and with it the key, as it is (the lookups do not write to the service).
\<close>

theorem qrz_session_acquisition:
  assumes "\<not> isInitialized s" "\<not> initOnce s" "LoggerService s \<noteq> None" "client s = None"
    and "Config s = Some cfg0 \<or> (Config s = None \<and> ConfigService s = Some (Inr cfg0))"
    and "qrz_validateConfig env ''qrz.Service.Initialize'' (s\<lparr>Config := Some cfg0\<rparr>) = (None, s2)"
    and "Config s2 = Some cfg" "Enabled cfg"
    and "url_Parse env (URL cfg) = Inr u"
  shows "\<exists>r s' ev. qrz_Initialize env s = (Returns (r, s'), ev)
     \<and> (r \<noteq> None \<longrightarrow> (\<exists>cfg'. Config s' = Some cfg' \<and> \<not> Enabled cfg') \<and> \<not> isInitialized s')
     \<and> (r = None \<longrightarrow> isInitialized s'
            \<and> (\<forall>env'. qrz_Initialize env' s' = (Returns (None, s'), [])))
     \<and> (\<forall>e. http_NewRequest env (rq_URL (qrz_sessionRequest cfg u)) = Some e \<longrightarrow>
           r = Some (DetailedError ''qrz.Service.fetchAndSetSessionKey''
                       (''Failed to create HTTP GET request: '' @ e) (Some (External e))))
     \<and> (http_NewRequest env (rq_URL (qrz_sessionRequest cfg u)) = None \<longrightarrow>
          (\<forall>e. http_Do env (HttpClient (HttpTimeoutSec cfg)) (qrz_sessionRequest cfg u) = Inl e \<longrightarrow>
             r = Some (DetailedError ''qrz.Service.fetchAndSetSessionKey''
                         (''Failed to perform HTTP GET request: '' @ e) (Some (External e))))
        \<and> (\<forall>resp. http_Do env (HttpClient (HttpTimeoutSec cfg)) (qrz_sessionRequest cfg u) = Inr resp \<longrightarrow>
             (rs_StatusCode resp < 200 \<or> 300 \<le> rs_StatusCode resp \<longrightarrow>
                r = Some (DetailedError ''qrz.Service.fetchAndSetSessionKey''
                            (''QRZ.com returned unexpected status '' @ Itoa (rs_StatusCode resp)
                               @ '': '' @ rs_Body resp) None))
           \<and> (200 \<le> rs_StatusCode resp \<and> rs_StatusCode resp < 300 \<longrightarrow>
                (\<forall>e. rs_ReadErr resp = Some e \<longrightarrow>
                   r = Some (DetailedError ''qrz.Service.fetchAndSetSessionKey''
                               (''Failed to read response body: '' @ e) (Some (External e))))
              \<and> (rs_ReadErr resp = None \<longrightarrow>
                   (\<forall>e. xml_Unmarshal env (rs_Body resp) = Inl e \<longrightarrow>
                      r = Some (DetailedError ''qrz.Service.fetchAndSetSessionKey''
                                  (''Failed to unmarshal XML: '' @ e) (Some (External e))))
                 \<and> (\<forall>db. xml_Unmarshal env (rs_Body resp) = Inr db \<longrightarrow>
                      (se_Error (db_Session db) \<noteq> [] \<longrightarrow>
                         r = Some (DetailedError ''qrz.Service.fetchAndSetSessionKey''
                                     (''QRZ.com returned error: '' @ se_Error (db_Session db)) None))
                    \<and> (se_Error (db_Session db) = [] \<and> se_Key (db_Session db) = [] \<longrightarrow>
                         r = Some (DetailedError ''qrz.Service.fetchAndSetSessionKey''
                                     ''QRZ.com returned missing session key'' None))
                    \<and> (se_Error (db_Session db) = [] \<and> se_Key (db_Session db) \<noteq> [] \<longrightarrow>
                         r = None \<and> sessionKey s' = se_Key (db_Session db)))))))"
proof -
  let ?cl = "HttpClient (HttpTimeoutSec cfg)"
  let ?rq = "qrz_sessionRequest cfg u"
  let ?A = "\<lambda>r. (\<forall>e. http_NewRequest env (rq_URL (qrz_sessionRequest cfg u)) = Some e \<longrightarrow>
           r = Some (DetailedError ''qrz.Service.fetchAndSetSessionKey''
                       (''Failed to create HTTP GET request: '' @ e) (Some (External e))))"
  let ?B = "\<lambda>r k. (http_NewRequest env (rq_URL (qrz_sessionRequest cfg u)) = None \<longrightarrow>
          (\<forall>e. http_Do env (HttpClient (HttpTimeoutSec cfg)) (qrz_sessionRequest cfg u) = Inl e \<longrightarrow>
             r = Some (DetailedError ''qrz.Service.fetchAndSetSessionKey''
                         (''Failed to perform HTTP GET request: '' @ e) (Some (External e))))
        \<and> (\<forall>resp. http_Do env (HttpClient (HttpTimeoutSec cfg)) (qrz_sessionRequest cfg u) = Inr resp \<longrightarrow>
             (rs_StatusCode resp < 200 \<or> 300 \<le> rs_StatusCode resp \<longrightarrow>
                r = Some (DetailedError ''qrz.Service.fetchAndSetSessionKey''
                            (''QRZ.com returned unexpected status '' @ Itoa (rs_StatusCode resp)
                               @ '': '' @ rs_Body resp) None))
           \<and> (200 \<le> rs_StatusCode resp \<and> rs_StatusCode resp < 300 \<longrightarrow>
                (\<forall>e. rs_ReadErr resp = Some e \<longrightarrow>
                   r = Some (DetailedError ''qrz.Service.fetchAndSetSessionKey''
                               (''Failed to read response body: '' @ e) (Some (External e))))
              \<and> (rs_ReadErr resp = None \<longrightarrow>
                   (\<forall>e. xml_Unmarshal env (rs_Body resp) = Inl e \<longrightarrow>
                      r = Some (DetailedError ''qrz.Service.fetchAndSetSessionKey''
                                  (''Failed to unmarshal XML: '' @ e) (Some (External e))))
                 \<and> (\<forall>db. xml_Unmarshal env (rs_Body resp) = Inr db \<longrightarrow>
                      (se_Error (db_Session db) \<noteq> [] \<longrightarrow>
                         r = Some (DetailedError ''qrz.Service.fetchAndSetSessionKey''
                                     (''QRZ.com returned error: '' @ se_Error (db_Session db)) None))
                    \<and> (se_Error (db_Session db) = [] \<and> se_Key (db_Session db) = [] \<longrightarrow>
                         r = Some (DetailedError ''qrz.Service.fetchAndSetSessionKey''
                                     ''QRZ.com returned missing session key'' None))
                    \<and> (se_Error (db_Session db) = [] \<and> se_Key (db_Session db) \<noteq> [] \<longrightarrow>
                         r = None \<and> k = se_Key (db_Session db)))))))"
  define s3 where "s3 = s2\<lparr>client := Some ?cl\<rparr>"
  have s2: "s2 = s\<lparr>Config := Some cfg\<rparr>"
    using qrz_validateConfig_ok [OF assms(6)] assms(7) by simp
  have h3: "Config s3 = Some cfg" "client s3 = Some ?cl"
    "LoggerService s3 \<noteq> None" "\<not> isInitialized s3"
    using assms(1,3,7) by (simp_all add: s3_def s2)
  have lift: ?thesis
    if req: "qrz_requestAndSetSessionKey env s3 = (Returns (r, s4), ev)"
      and c4: "Config s4 = Some cfg" and i4: "\<not> isInitialized s4"
      and A: "?A r" and B: "?B r (sessionKey s4)" for r s4 ev
  proof -
    define s' where "s' = (if r = None then s4\<lparr>isInitialized := True\<rparr>
                  else s4\<lparr>Config := Some (cfg\<lparr>Enabled := False\<rparr>)\<rparr>)\<lparr>initOnce := True\<rparr>"
    have acq: "qrz_acquire env s2 cfg =
       (Returns (r, if r = None then s4\<lparr>isInitialized := True\<rparr>
                    else s4\<lparr>Config := Some (cfg\<lparr>Enabled := False\<rparr>)\<rparr>), ev)"
      using req c4 by (intro qrz_acquire_lift) (simp_all add: s3_def)
    have init: "qrz_Initialize env s = (Returns (r, s'), ev)"
      unfolding qrz_Initialize_acquires [OF assms(1-8)] acq s'_def by simp
    have p1: "r \<noteq> None \<longrightarrow> (\<exists>cfg'. Config s' = Some cfg' \<and> \<not> Enabled cfg') \<and> \<not> isInitialized s'"
      using i4 by (simp add: s'_def)
    have p3: "r = None \<longrightarrow> isInitialized s'
              \<and> (\<forall>env'. qrz_Initialize env' s' = (Returns (None, s'), []))"
      by (simp add: s'_def qrz_Initialize_def)
    have k: "sessionKey s4 = sessionKey s'"
      by (simp add: s'_def)
    have B': "?B r (sessionKey s')"
      using B unfolding k .
    note all = conjI [OF init conjI [OF p1 conjI [OF p3 conjI [OF A B']]]]
    show ?thesis
      by (rule exI)+ (rule all)
  qed
  note out = qrz_request_outcome [OF h3(1,2) assms(9) h3(3)]
  show ?thesis
  proof (cases "http_NewRequest env (rq_URL ?rq)")
    case (Some e)
    show ?thesis
    proof (rule lift)
      show "qrz_requestAndSetSessionKey env s3 =
          (Returns (Some (DetailedError ''qrz.Service.fetchAndSetSessionKey''
                            (''Failed to create HTTP GET request: '' @ e) (Some (External e))), s3), [])"
        using out Some by simp
      show "Config s3 = Some cfg" "\<not> isInitialized s3" by fact+
      show "?A (Some (DetailedError ''qrz.Service.fetchAndSetSessionKey''
                            (''Failed to create HTTP GET request: '' @ e) (Some (External e))))"
        using Some by simp
      show "?B (Some (DetailedError ''qrz.Service.fetchAndSetSessionKey''
                            (''Failed to create HTTP GET request: '' @ e) (Some (External e))))
               (sessionKey s3)"
        using Some by simp
    qed
  next
    case None
    show ?thesis
    proof (cases "http_Do env ?cl ?rq")
      case (Inl e)
      show ?thesis
      proof (rule lift)
        show "qrz_requestAndSetSessionKey env s3 =
            (Returns (Some (DetailedError ''qrz.Service.fetchAndSetSessionKey''
                              (''Failed to perform HTTP GET request: '' @ e) (Some (External e))), s3),
             [HttpGet ?cl ?rq])"
          using out None Inl by simp
        show "Config s3 = Some cfg" "\<not> isInitialized s3" by fact+
        show "?A (Some (DetailedError ''qrz.Service.fetchAndSetSessionKey''
                              (''Failed to perform HTTP GET request: '' @ e) (Some (External e))))"
          using None by simp
        show "?B (Some (DetailedError ''qrz.Service.fetchAndSetSessionKey''
                              (''Failed to perform HTTP GET request: '' @ e) (Some (External e))))
                 (sessionKey s3)"
          using Inl by simp
      qed
    next
      case (Inr resp)
      obtain r s4 where sf: "qrz_sessionFromResponse env s3 resp = (r, s4)"
        by (cases "qrz_sessionFromResponse env s3 resp") blast
      note f = qrz_sessionFromResponse_fields [OF sf]
      show ?thesis
      proof (rule lift)
        show "qrz_requestAndSetSessionKey env s3 =
            (Returns (r, s4), HttpGet ?cl ?rq #
               (if rs_CloseErr resp \<noteq> None then [LogError ''Failed to close response body'']
                else []))"
          using out None Inr sf by simp
        show "Config s4 = Some cfg" "\<not> isInitialized s4"
          using f h3 by simp_all
        show "?A r"
          using None by simp
        show "?B r (sessionKey s4)"
          using Inr qrz_sessionFromResponse_spec [OF sf] by simp
      qed
    qed
  qed
qed


theorem qrz_session_acquisition_witness:
  "\<exists>s'. fst (qrz_Initialize
              (ex_env (ex_response 200 []) (Inr (ex_database [] [] ''Username/password incorrect'')) (Inl []))
              (qrz_fresh ex_cfg)) =
            Returns (Some (DetailedError ''qrz.Service.fetchAndSetSessionKey''
                       ''QRZ.com returned error: Username/password incorrect'' None), s')
      \<and> (\<exists>cfg'. Config s' = Some cfg' \<and> \<not> Enabled cfg') \<and> \<not> isInitialized s'"
proof -
  let ?db = "ex_database [] [] ''Username/password incorrect''"
  let ?env = "ex_env (ex_response 200 []) (Inr ?db) (Inl [])"
  let ?s = "qrz_fresh ex_cfg"
  have 1: "\<not> isInitialized ?s" "\<not> initOnce ?s" "LoggerService ?s \<noteq> None" "client ?s = None"
    by (simp_all add: qrz_fresh_def)
  have 5: "Config ?s = Some ex_cfg \<or> (Config ?s = None \<and> ConfigService ?s = Some (Inr ex_cfg))"
    by (simp add: qrz_fresh_def)
  have 6: "qrz_validateConfig ?env ''qrz.Service.Initialize'' (?s\<lparr>Config := Some ex_cfg\<rparr>) = (None, ?s)"
    by (simp add: qrz_validateConfig_def qrz_fresh_def ex_cfg_def ex_env_def ex_url_def ex_cfg_trim)
  have 7: "Config ?s = Some ex_cfg" "Enabled ex_cfg"
    by (simp_all add: qrz_fresh_def ex_cfg_def)
  have 9: "url_Parse ?env (URL ex_cfg) = Inr ex_url"
    by (simp add: ex_env_def)
  from qrz_session_acquisition [OF 1 5 6 7 9] obtain r s' ev where
    init: "qrz_Initialize ?env ?s = (Returns (r, s'), ev)"
    and p1: "r \<noteq> None \<longrightarrow> (\<exists>cfg'. Config s' = Some cfg' \<and> \<not> Enabled cfg') \<and> \<not> isInitialized s'"
    and B: "http_NewRequest ?env (rq_URL (qrz_sessionRequest ex_cfg ex_url)) = None \<longrightarrow>
          (\<forall>e. http_Do ?env (HttpClient (HttpTimeoutSec ex_cfg)) (qrz_sessionRequest ex_cfg ex_url) = Inl e \<longrightarrow>
             r = Some (DetailedError ''qrz.Service.fetchAndSetSessionKey''
                         (''Failed to perform HTTP GET request: '' @ e) (Some (External e))))
        \<and> (\<forall>resp. http_Do ?env (HttpClient (HttpTimeoutSec ex_cfg)) (qrz_sessionRequest ex_cfg ex_url) = Inr resp \<longrightarrow>
             (rs_StatusCode resp < 200 \<or> 300 \<le> rs_StatusCode resp \<longrightarrow>
                r = Some (DetailedError ''qrz.Service.fetchAndSetSessionKey''
                            (''QRZ.com returned unexpected status '' @ Itoa (rs_StatusCode resp)
                               @ '': '' @ rs_Body resp) None))
           \<and> (200 \<le> rs_StatusCode resp \<and> rs_StatusCode resp < 300 \<longrightarrow>
                (\<forall>e. rs_ReadErr resp = Some e \<longrightarrow>
                   r = Some (DetailedError ''qrz.Service.fetchAndSetSessionKey''
                               (''Failed to read response body: '' @ e) (Some (External e))))
              \<and> (rs_ReadErr resp = None \<longrightarrow>
                   (\<forall>e. xml_Unmarshal ?env (rs_Body resp) = Inl e \<longrightarrow>
                      r = Some (DetailedError ''qrz.Service.fetchAndSetSessionKey''
                                  (''Failed to unmarshal XML: '' @ e) (Some (External e))))
                 \<and> (\<forall>db. xml_Unmarshal ?env (rs_Body resp) = Inr db \<longrightarrow>
                      (se_Error (db_Session db) \<noteq> [] \<longrightarrow>
                         r = Some (DetailedError ''qrz.Service.fetchAndSetSessionKey''
                                     (''QRZ.com returned error: '' @ se_Error (db_Session db)) None))
                    \<and> (se_Error (db_Session db) = [] \<and> se_Key (db_Session db) = [] \<longrightarrow>
                         r = Some (DetailedError ''qrz.Service.fetchAndSetSessionKey''
                                     ''QRZ.com returned missing session key'' None))
                    \<and> (se_Error (db_Session db) = [] \<and> se_Key (db_Session db) \<noteq> [] \<longrightarrow>
                         r = None \<and> sessionKey s' = se_Key (db_Session db))))))"
    by (elim exE conjE) (rule that, assumption+)
  have r: "r = Some (DetailedError ''qrz.Service.fetchAndSetSessionKey''
                       ''QRZ.com returned error: Username/password incorrect'' None)"
    using B by (simp add: ex_env_def ex_response_def ex_database_def)
  with p1 init show ?thesis by simp
qed

section \<open>Life cycle and preconditions of the lookups\<close>

lemma hamnut_Initialize_again:
  assumes "hamnut_Initialize env s = (Returns (r, s1), ev)"
  shows "hamnut_Initialize env' s1 = (Returns (None, s1), [])"
  using assms unfolding hamnut_Initialize_def
  by (auto split: if_splits prod.splits Outcome.splits)

lemma qrz_Initialize_again:
  assumes "qrz_Initialize env s = (Returns (r, s1), ev)"
  shows "qrz_Initialize env' s1 = (Returns (None, s1), [])"
  using assms unfolding qrz_Initialize_def
  by (auto split: if_splits prod.splits Outcome.splits)

text \<open>
  Claim C1, at a service whose logger is not set (the zero value of the tests). The
  first \<open>Initialize\<close> returns the error and uses up the \<open>sync.Once\<close>; the second
  finds the flag unset, \<open>initOnce.Do\<close> does nothing, and the local \<open>initErr\<close>, still
  nil, is returned: the second call returns nil although the first failed. The
  service is the same after both calls. This holds for both adapters.
\<close>

theorem Initialize_second_call_after_failure:
  "hamnut_Initialize env hamnut_zero =
     (Returns (Some (DetailedError ''hamnut.Service.Initialize''
                       ''logger service has not been set/injected'' None),
               hamnut_zero\<lparr>initOnce := True\<rparr>), [])
   \<and> hamnut_Initialize env (hamnut_zero\<lparr>initOnce := True\<rparr>) =
     (Returns (None, hamnut_zero\<lparr>initOnce := True\<rparr>), [])
   \<and> qrz_Initialize env qrz_zero =
     (Returns (Some (DetailedError ''qrz.Service.Initialize''
                       ''logger service has not been set/injected'' None),
               qrz_zero\<lparr>initOnce := True\<rparr>), [])
   \<and> qrz_Initialize env (qrz_zero\<lparr>initOnce := True\<rparr>) =
     (Returns (None, qrz_zero\<lparr>initOnce := True\<rparr>), [])"
  by (simp add: hamnut_Initialize_def hamnut_initBody_def hamnut_zero_def
      qrz_Initialize_def qrz_initBody_def qrz_zero_def errors_New_def)

lemma hamnut_Lookup_not_initialized:
  "\<not> isInitialized s \<Longrightarrow>
   hamnut_Lookup env s c =
     (Returns (emptyCountry, Some (DetailedError ''hamnut.Service.LookupWithContext''
                                     ''service is not initialized'' None)), [])"
  by (simp add: hamnut_Lookup_def hamnut_LookupWithContext_def errors_New_def)

lemma qrz_LookupWithContext_not_initialized:
  "\<not> isInitialized s \<Longrightarrow>
   qrz_LookupWithContext env s ctx c =
     (Returns (emptyStation, Some (DetailedError ''qrz.service.LookupWithContext''
                                     ''service is not initialized'' None)), [])"
  by (simp add: qrz_LookupWithContext_def errors_New_def)

text \<open>
  Claim C2, for \<open>Lookup\<close> of the XML adapter before \<open>Initialize\<close>. On the zero value it
  dereferences the nil \<open>Config\<close> and panics; on a service with a disabled configuration
  it returns an empty record and no error. (\<open>Lookup\<close> of the JSON adapter and
  \<open>LookupWithContext\<close> of both return the error \<open>service is not initialized\<close>, as the
  two lemmas above show.)
\<close>

theorem qrz_Lookup_before_Initialize:
  "qrz_Lookup env qrz_zero c = (Panics, [])
   \<and> \<not> isInitialized (qrz_fresh (ex_cfg\<lparr>Enabled := False\<rparr>))
   \<and> qrz_Lookup env (qrz_fresh (ex_cfg\<lparr>Enabled := False\<rparr>)) c =
       (Returns (emptyStation, None), [LogInfo ''QRZ.com lookup not enabled in the config.''])"
  by (simp add: qrz_Lookup_def qrz_zero_def qrz_fresh_def ex_cfg_def logPanics_def logged_def)

lemma hamnut_LookupWithContext_empty:
  assumes "isInitialized s" "Config s = Some cfg" "Enabled cfg" "client s = Some cl"
    and "TrimSpace c = []"
  shows "hamnut_LookupWithContext env s ctx c =
     (Returns (emptyCountry, Some (DetailedError ''hamnut.Service.LookupWithContext''
                                     ''callsign cannot be empty'' None)), [])"
  using assms by (simp add: hamnut_LookupWithContext_def errors_New_def)

lemma ex_station_eval:
  "ToUpper (TrimSpace ''aa7bq'') = ''AA7BQ''"
  "Contains (ToLower ''Callsign not found, try again'') ''not found''"
  "\<not> Contains (ToLower ''Invalid session key'') ''not found''"
  "TrimSpace ''Callsign not found, try again'' = ''Callsign not found, try again''"
  "TrimSpace ''Invalid session key'' = ''Invalid session key''"
  "TrimSpace '' '' = []"
  by code_simp+

text \<open>
  Claim C3, for the XML adapter. An initialized, enabled service given the identifier of
  three spaces sends the request with an empty \<open>callsign\<close> parameter and returns what
  the response gives, here a record and no error. (The JSON adapter returns the error
  \<open>callsign cannot be empty\<close> and sends nothing, as the lemma above shows.)
\<close>

theorem qrz_blank_identifier_is_sent:
  "qrz_LookupWithContext
     (ex_env (ex_response 200 []) (Inr (ex_database [] [] ''Callsign not found, try again'')) (Inl []))
     (qrz_ready ex_cfg) None ''   '' =
   (Returns (emptyStation, None),
    [HttpGet (HttpClient 5)
       \<lparr>rq_Ctx = Background,
        rq_URL = ex_url\<lparr>u_Query := [(''s'', ''key''), (''callsign'', []), (''agent'', ''test'')]\<rparr>,
        rq_Header = [(''User-Agent'', ''test''), (''Accept'', ''application/xml'')]\<rparr>,
     LogInfo ''Callsign not found in QRZ.com database''])"
  by (simp add: qrz_LookupWithContext_def qrz_classify_def qrz_unmarshalResponse_def
      qrz_ready_def ex_cfg_def ex_env_def ex_url_def ex_response_def ex_database_def
      TrimSpace_blank ex_station_eval errors_New_def logPanics_def logged_def emptyStation_def)

section \<open>Lookup and LookupWithContext\<close>

text \<open>
  Claim C4 as stated fails for the XML adapter: with a disabled configuration \<open>Lookup\<close>
  returns an empty record and no error, while \<open>LookupWithContext\<close> with the background
  context returns a record holding the identifier, and the two records differ.
\<close>

theorem Lookup_vs_LookupWithContext_counterexample:
  "fst (qrz_Lookup (ex_env (ex_response 200 []) (Inl []) (Inl []))
       (qrz_ready (ex_cfg\<lparr>Enabled := False\<rparr>)) ''K1ABC'') = Returns (emptyStation, None)
   \<and> fst (qrz_LookupWithContext (ex_env (ex_response 200 []) (Inl []) (Inl []))
       (qrz_ready (ex_cfg\<lparr>Enabled := False\<rparr>)) (Some Background) ''K1ABC'')
       = Returns (emptyStation\<lparr>st_Call := ''K1ABC''\<rparr>, None)
   \<and> emptyStation \<noteq> emptyStation\<lparr>st_Call := ''K1ABC''\<rparr>"
  by (simp add: qrz_Lookup_def qrz_LookupWithContext_def qrz_ready_def ex_cfg_def
      logPanics_def logged_def TrimSpace_K1ABC emptyStation_def)

text \<open>
  Claim C4, amended. \<open>Lookup\<close> of the JSON adapter returns what \<open>LookupWithContext\<close>
  returns with the background context. \<open>Lookup\<close> of the XML adapter does so whenever the
  configuration is set and enabled. With a configuration that is set and disabled,
  whatever the state of initialization, it does not call \<open>LookupWithContext\<close>: with a
  logger it logs a line and returns an empty record and no error; with a nil logger its
  log call panics if the logging package panics on a nil receiver, and otherwise it
  returns the empty record and no error without a log line.
\<close>

theorem Lookup_is_LookupWithContext_when_enabled:
  "hamnut_Lookup env h c = hamnut_LookupWithContext env h (Some Background) c
   \<and> (\<forall>cfg. Config s = Some cfg \<and> Enabled cfg \<longrightarrow>
         qrz_Lookup env s c = qrz_LookupWithContext env s (Some Background) c)
   \<and> (\<forall>cfg. Config s = Some cfg \<and> \<not> Enabled cfg \<longrightarrow>
         qrz_Lookup env s c =
           (if LoggerService s = None
            then (if nilLoggerPanics env then (Panics, []) else (Returns (emptyStation, None), []))
            else (Returns (emptyStation, None),
                  [LogInfo ''QRZ.com lookup not enabled in the config.''])))"
  by (auto simp: hamnut_Lookup_def qrz_Lookup_def logPanics_def logged_def)

theorem Lookup_is_LookupWithContext_when_enabled_witness:
  "qrz_Lookup (ex_env (ex_response 200 []) (Inl []) (Inl [])) (qrz_ready ex_cfg) ''K1ABC''
     = qrz_LookupWithContext (ex_env (ex_response 200 []) (Inl []) (Inl [])) (qrz_ready ex_cfg)
         (Some Background) ''K1ABC''
   \<and> qrz_Lookup (ex_env (ex_response 200 []) (Inl []) (Inl []))
        (qrz_ready (ex_cfg\<lparr>Enabled := False\<rparr>)) ''K1ABC''
     = (Returns (emptyStation, None), [LogInfo ''QRZ.com lookup not enabled in the config.''])
   \<and> qrz_Lookup (ex_env (ex_response 200 []) (Inl []) (Inl []))
        (qrz_zero\<lparr>Config := Some (ex_cfg\<lparr>Enabled := False\<rparr>)\<rparr>) ''K1ABC''
     = (Panics, [])"
proof -
  let ?env = "ex_env (ex_response 200 []) (Inl []) (Inl [])"
  let ?off = "ex_cfg\<lparr>Enabled := False\<rparr>"
  have 1: "Config (qrz_ready ex_cfg) = Some ex_cfg \<and> Enabled ex_cfg"
    by (simp add: qrz_ready_def ex_cfg_def)
  have 2: "Config (qrz_ready ?off) = Some ?off \<and> \<not> Enabled ?off
       \<and> LoggerService (qrz_ready ?off) \<noteq> None"
    by (simp add: qrz_ready_def)
  have 3: "Config (qrz_zero\<lparr>Config := Some ?off\<rparr>) = Some ?off \<and> \<not> Enabled ?off
       \<and> LoggerService (qrz_zero\<lparr>Config := Some ?off\<rparr>) = None \<and> nilLoggerPanics ?env"
    by (simp add: qrz_zero_def ex_env_def)
  from Lookup_is_LookupWithContext_when_enabled [of ?env hamnut_zero "''K1ABC''" "qrz_ready ex_cfg"] 1
  have a: "qrz_Lookup ?env (qrz_ready ex_cfg) ''K1ABC''
     = qrz_LookupWithContext ?env (qrz_ready ex_cfg) (Some Background) ''K1ABC''"
    by blast
  from Lookup_is_LookupWithContext_when_enabled [of ?env hamnut_zero "''K1ABC''" "qrz_ready ?off"] 2
  have b: "qrz_Lookup ?env (qrz_ready ?off) ''K1ABC''
     = (Returns (emptyStation, None), [LogInfo ''QRZ.com lookup not enabled in the config.''])"
    by auto
  from Lookup_is_LookupWithContext_when_enabled [of ?env hamnut_zero "''K1ABC''"
      "qrz_zero\<lparr>Config := Some ?off\<rparr>"] 3
  have c: "qrz_Lookup ?env (qrz_zero\<lparr>Config := Some ?off\<rparr>) ''K1ABC'' = (Panics, [])"
    by auto
  from a b c show ?thesis by blast
qed

section \<open>The XML adapter: classification of the response body\<close>










end
